theory Spec2Isabelle
  imports Main "HOL-Library.Sublist" "HOL-Library.AList"
begin

section \<open>JavaScript strings\<close>

text \<open>
  A JavaScript string is a finite sequence of UTF-16 code units. The program's literals are
  mostly Cyrillic, so a string is modelled as the list of its code units, each a natural
  number below \<open>0x10000\<close>; \<open>length\<close> is then JavaScript's \<open>.length\<close>. Literals made
  of printable ASCII are written through \<open>ascii\<close>; all others are spelled out in
  hexadecimal, with the source line and a transliteration beside them.
\<close>

type_synonym jsstring = "nat list"

definition ascii :: "string \<Rightarrow> jsstring" where
  "ascii s = map of_char s"

text \<open>\<open>s.includes(k)\<close> (named \<open>js_includes\<close>): \<open>k\<close> occurs in \<open>s\<close> as a contiguous block; case-sensitive.\<close>

fun js_includes :: "jsstring \<Rightarrow> jsstring \<Rightarrow> bool" where
  "js_includes [] k = (k = [])"
| "js_includes (c # s) k = (prefix k (c # s) \<or> js_includes s k)"

text \<open>
  \<open>s.split(sep)\<close> for a separator of one code unit: the pieces between the occurrences of
  the separator, in order. \<open>index1\<close> is the read \<open>[1]\<close> of the resulting array; where the
  array has no second element JavaScript yields \<open>undefined\<close>, which a template literal
  prints as the word \<open>undefined\<close>.
\<close>

fun split :: "nat \<Rightarrow> jsstring \<Rightarrow> jsstring list" where
  "split sep [] = [[]]"
| "split sep (c # s) =
     (if c = sep then [] # split sep s
      else (case split sep s of [] \<Rightarrow> [[c]] | p # ps \<Rightarrow> (c # p) # ps))"

definition index1 :: "jsstring list \<Rightarrow> jsstring" where
  "index1 ps = (case ps of _ # p # _ \<Rightarrow> p | _ \<Rightarrow> ascii ''undefined'')"

text \<open>
  \<open>toLowerCase\<close> and \<open>toUpperCase\<close> are modelled on the two alphabets the program's
  literals are written in: Basic Latin and the Cyrillic block \<open>U+0400\<close> to \<open>U+045F\<close>.
  Code units of other scripts are left as they are (JavaScript folds further scripts as
  well); the general theorems below never inspect these two functions, only the
  evaluations at concrete Latin and Cyrillic inputs do.
\<close>

definition lowerUnit :: "nat \<Rightarrow> nat" where
  "lowerUnit c =
     (if (0x41 \<le> c \<and> c \<le> 0x5A) \<or> (0x410 \<le> c \<and> c \<le> 0x42F) then c + 0x20
      else if 0x400 \<le> c \<and> c \<le> 0x40F then c + 0x50
      else c)"


definition toLowerCase :: "jsstring \<Rightarrow> jsstring" where
  "toLowerCase s = map lowerUnit s"


text \<open>
  A property read from a parsed JSON object may be absent (\<open>undefined\<close> or \<open>null\<close>):
  string-valued properties are \<open>jsstring option\<close>. In a condition JavaScript takes an
  absent value and the empty string for false (\<open>truthy\<close>); \<open>x || d\<close> is \<open>orElse x d\<close>.
\<close>

definition truthy :: "jsstring option \<Rightarrow> bool" where
  "truthy x = (case x of None \<Rightarrow> False | Some s \<Rightarrow> s \<noteq> [])"

definition orElse :: "jsstring option \<Rightarrow> jsstring \<Rightarrow> jsstring" where
  "orElse x d = (case x of None \<Rightarrow> d | Some s \<Rightarrow> if s = [] then d else s)"

section \<open>Data model\<close>

record issue =
  message :: "jsstring option"
  severity :: "jsstring option"
  location :: "jsstring option"
  rule :: "jsstring option"
  evidence :: "jsstring option"
  how_to_fix :: "jsstring option"

section \<open>String literals of the program\<close>

definition kw_FIO :: jsstring where \<comment> \<open>line 106: upper-case abbreviation F-I-O (full name)\<close>
  "kw_FIO = [0x424, 0x418, 0x41E]"

definition kw_fio :: jsstring where \<comment> \<open>line 106: lower-case f-i-o\<close>
  "kw_fio = [0x444, 0x438, 0x43E]"

definition kw_Familiya :: jsstring where \<comment> \<open>line 147: capitalised 'Familiya' (surname)\<close>
  "kw_Familiya = [0x424, 0x430, 0x43C, 0x438, 0x43B, 0x438, 0x44F]"

definition kw_student :: jsstring where \<comment> \<open>line 148: 'student'\<close>
  "kw_student = [0x441, 0x442, 0x443, 0x434, 0x435, 0x43D, 0x442]"

definition kw_rukovoditel :: jsstring where \<comment> \<open>line 149: 'rukovoditel' (supervisor)\<close>
  "kw_rukovoditel = [0x440, 0x443, 0x43A, 0x43E, 0x432, 0x43E, 0x434, 0x438, 0x442, 0x435, 0x43B, 0x44C]"

definition kw_padezh :: jsstring where \<comment> \<open>line 150: 'padezh' (grammatical case)\<close>
  "kw_padezh = [0x43F, 0x430, 0x434, 0x435, 0x436]"

definition kw_sokrascheni :: jsstring where \<comment> \<open>line 151: 'sokrascheni', stem of 'abbreviation'\<close>
  "kw_sokrascheni = [0x441, 0x43E, 0x43A, 0x440, 0x430, 0x449, 0x435, 0x43D, 0x438]"

definition kw_ne_naideno :: jsstring where \<comment> \<open>line 156: 'ne naideno' (not found)\<close>
  "kw_ne_naideno = [0x43D, 0x435, 0x20, 0x43D, 0x430, 0x439, 0x434, 0x435, 0x43D, 0x43E]"

definition kw_obuchayuschegosya :: jsstring where \<comment> \<open>line 157: 'obuchayuschegosya' (of the learner)\<close>
  "kw_obuchayuschegosya = [0x43E, 0x431, 0x443, 0x447, 0x430, 0x44E, 0x449, 0x435, 0x433, 0x43E, 0x441, 0x44F]"

definition kw_rukovoditelya :: jsstring where \<comment> \<open>line 160: 'rukovoditelya' (of the supervisor)\<close>
  "kw_rukovoditelya = [0x440, 0x443, 0x43A, 0x43E, 0x432, 0x43E, 0x434, 0x438, 0x442, 0x435, 0x43B, 0x44F]"

definition kw_sokrascheniya :: jsstring where \<comment> \<open>line 165: 'sokrascheniya' (abbreviations)\<close>
  "kw_sokrascheniya = [0x441, 0x43E, 0x43A, 0x440, 0x430, 0x449, 0x435, 0x43D, 0x438, 0x44F]"

definition kw_io :: jsstring where \<comment> \<open>line 165: initials 'i.o.'\<close>
  "kw_io = [0x438, 0x2E, 0x43E, 0x2E]"

definition kw_i_o :: jsstring where \<comment> \<open>line 165: initials 'i. o.' with a space\<close>
  "kw_i_o = [0x438, 0x2E, 0x20, 0x43E, 0x2E]"

definition kw_padezhe :: jsstring where \<comment> \<open>line 171: 'padezhe' (in the case)\<close>
  "kw_padezhe = [0x43F, 0x430, 0x434, 0x435, 0x436, 0x435]"

definition kw_familiya :: jsstring where \<comment> \<open>line 177: lower-case 'familiya'\<close>
  "kw_familiya = [0x444, 0x430, 0x43C, 0x438, 0x43B, 0x438, 0x44F]"

definition kw_nomer_prikaza :: jsstring where \<comment> \<open>line 542: 'nomer prikaza' (order number)\<close>
  "kw_nomer_prikaza = [0x43D, 0x43E, 0x43C, 0x435, 0x440, 0x20, 0x43F, 0x440, 0x438, 0x43A, 0x430, 0x437,
   0x430]"

definition kw_prikaz :: jsstring where \<comment> \<open>line 543: 'prikaz' (order)\<close>
  "kw_prikaz = [0x43F, 0x440, 0x438, 0x43A, 0x430, 0x437]"

definition kw_rasporyazhenie :: jsstring where \<comment> \<open>line 544: 'rasporyazhenie' (directive)\<close>
  "kw_rasporyazhenie = [0x440, 0x430, 0x441, 0x43F, 0x43E, 0x440, 0x44F, 0x436, 0x435, 0x43D, 0x438, 0x435]"

definition kw_OrderNumber :: jsstring where \<comment> \<open>line 545\<close>
  "kw_OrderNumber = ascii ''OrderNumber''"

definition kw_ne_naiden_nomer :: jsstring where \<comment> \<open>line 384: 'ne naiden nomer' (number not found)\<close>
  "kw_ne_naiden_nomer = [0x43D, 0x435, 0x20, 0x43D, 0x430, 0x439, 0x434, 0x435, 0x43D, 0x20, 0x43D, 0x43E,
   0x43C, 0x435, 0x440]"

definition kw_nestandartnyi_format :: jsstring where \<comment> \<open>line 388: 'nestandartnyi format' (non-standard format)\<close>
  "kw_nestandartnyi_format = [0x43D, 0x435, 0x441, 0x442, 0x430, 0x43D, 0x434, 0x430, 0x440, 0x442, 0x43D, 0x44B,
   0x439, 0x20, 0x444, 0x43E, 0x440, 0x43C, 0x430, 0x442]"

definition kw_nedopustimye_simvoly :: jsstring where \<comment> \<open>line 392: 'nedopustimye simvoly' (invalid characters)\<close>
  "kw_nedopustimye_simvoly = [0x43D, 0x435, 0x434, 0x43E, 0x43F, 0x443, 0x441, 0x442, 0x438, 0x43C, 0x44B, 0x435,
   0x20, 0x441, 0x438, 0x43C, 0x432, 0x43E, 0x43B, 0x44B]"

definition kw_slishkom_korotkii :: jsstring where \<comment> \<open>line 396: 'slishkom korotkii' (too short)\<close>
  "kw_slishkom_korotkii = [0x441, 0x43B, 0x438, 0x448, 0x43A, 0x43E, 0x43C, 0x20, 0x43A, 0x43E, 0x440, 0x43E,
   0x442, 0x43A, 0x438, 0x439]"

definition tok_title_page :: jsstring where \<comment> \<open>line 109\<close>
  "tok_title_page = ascii ''title_page''"

definition tok_page :: jsstring where \<comment> \<open>line 110\<close>
  "tok_page = ascii ''page:''"

definition tok_calendar_plan_table :: jsstring where \<comment> \<open>line 114\<close>
  "tok_calendar_plan_table = ascii ''calendar_plan_table''"

definition tok_document :: jsstring where \<comment> \<open>line 115\<close>
  "tok_document = ascii ''document''"

definition lbl_Oshibki_FIO :: jsstring where \<comment> \<open>line 107: 'Oshibki FIO' (name errors)\<close>
  "lbl_Oshibki_FIO = [0x41E, 0x448, 0x438, 0x431, 0x43A, 0x438, 0x20, 0x424, 0x418, 0x41E]"

definition lbl_Titulnaya_stranitsa :: jsstring where \<comment> \<open>line 109: 'Titulnaya stranitsa' (title page)\<close>
  "lbl_Titulnaya_stranitsa = [0x422, 0x438, 0x442, 0x443, 0x43B, 0x44C, 0x43D, 0x430, 0x44F, 0x20, 0x441, 0x442,
   0x440, 0x430, 0x43D, 0x438, 0x446, 0x430]"

definition lbl_Stranitsa :: jsstring where \<comment> \<open>line 112: 'Stranitsa ' (page, with trailing space)\<close>
  "lbl_Stranitsa = [0x421, 0x442, 0x440, 0x430, 0x43D, 0x438, 0x446, 0x430, 0x20]"

definition lbl_Tablitsa :: jsstring where \<comment> \<open>line 114: 'Tablitsa kalendarnogo plana' (schedule table)\<close>
  "lbl_Tablitsa = [0x422, 0x430, 0x431, 0x43B, 0x438, 0x446, 0x430, 0x20, 0x43A, 0x430, 0x43B, 0x435,
   0x43D, 0x434, 0x430, 0x440, 0x43D, 0x43E, 0x433, 0x43E, 0x20, 0x43F, 0x43B, 0x430,
   0x43D, 0x430]"

definition lbl_Osnovnoi_tekst :: jsstring where \<comment> \<open>line 115: 'Osnovnoi tekst' (main body)\<close>
  "lbl_Osnovnoi_tekst = [0x41E, 0x441, 0x43D, 0x43E, 0x432, 0x43D, 0x43E, 0x439, 0x20, 0x442, 0x435, 0x43A,
   0x441, 0x442]"

definition sev_critical :: jsstring where \<comment> \<open>line 274\<close>
  "sev_critical = ascii ''critical''"

definition sev_warning :: jsstring where \<comment> \<open>line 275\<close>
  "sev_warning = ascii ''warning''"

definition sev_info :: jsstring where \<comment> \<open>line 276\<close>
  "sev_info = ascii ''info''"

definition flt_all :: jsstring where \<comment> \<open>line 465\<close>
  "flt_all = ascii ''all''"

definition lbl_Kritichno :: jsstring where \<comment> \<open>line 274: 'Kritichno' (critical)\<close>
  "lbl_Kritichno = [0x41A, 0x440, 0x438, 0x442, 0x438, 0x447, 0x43D, 0x43E]"

definition lbl_Preduprezhdenie :: jsstring where \<comment> \<open>line 275: 'Preduprezhdenie' (warning)\<close>
  "lbl_Preduprezhdenie = [0x41F, 0x440, 0x435, 0x434, 0x443, 0x43F, 0x440, 0x435, 0x436, 0x434, 0x435, 0x43D,
   0x438, 0x435]"

definition lbl_Informatsiya :: jsstring where \<comment> \<open>line 276: 'Informatsiya' (information)\<close>
  "lbl_Informatsiya = [0x418, 0x43D, 0x444, 0x43E, 0x440, 0x43C, 0x430, 0x446, 0x438, 0x44F]"

definition lbl_OK :: jsstring where \<comment> \<open>line 277: Cyrillic 'OK'\<close>
  "lbl_OK = [0x41E, 0x41A]"

definition cls_ok :: jsstring where \<comment> \<open>line 281\<close>
  "cls_ok = ascii ''ok''"

definition str_Narushenie :: jsstring where \<comment> \<open>line 138: 'Narushenie' (violation)\<close>
  "str_Narushenie = [0x41D, 0x430, 0x440, 0x443, 0x448, 0x435, 0x43D, 0x438, 0x435]"

definition str_emdash :: jsstring where \<comment> \<open>line 199: em dash\<close>
  "str_emdash = [0x2014]"

definition str_hyphen :: jsstring where \<comment> \<open>line 199\<close>
  "str_hyphen = ascii ''-''"

definition str_dots :: jsstring where \<comment> \<open>line 371\<close>
  "str_dots = ascii ''...''"

definition fio_hint_student :: jsstring where \<comment> \<open>line 353: look for the student's full name after the words 'of the learner', 'admit', 'of the student' on the title page\<close>
  "fio_hint_student = [0x418, 0x449, 0x438, 0x442, 0x435, 0x20, 0x424, 0x418, 0x41E, 0x20, 0x441, 0x442,
   0x443, 0x434, 0x435, 0x43D, 0x442, 0x430, 0x20, 0x43F, 0x43E, 0x441, 0x43B, 0x435,
   0x20, 0x441, 0x43B, 0x43E, 0x432, 0x20, 0x27, 0x43E, 0x431, 0x443, 0x447, 0x430,
   0x44E, 0x449, 0x435, 0x433, 0x43E, 0x441, 0x44F, 0x27, 0x2C, 0x20, 0x27, 0x434,
   0x43E, 0x43F, 0x443, 0x441, 0x442, 0x438, 0x442, 0x44C, 0x27, 0x2C, 0x20, 0x27,
   0x441, 0x442, 0x443, 0x434, 0x435, 0x43D, 0x442, 0x430, 0x27, 0x20, 0x43D, 0x430,
   0x20, 0x442, 0x438, 0x442, 0x443, 0x43B, 0x44C, 0x43D, 0x43E, 0x439, 0x20, 0x441,
   0x442, 0x440, 0x430, 0x43D, 0x438, 0x446, 0x435]"

definition fio_hint_supervisor :: jsstring where \<comment> \<open>line 356: look for the supervisor's full name after the words 'supervisor', 'scientific supervisor' on the title page\<close>
  "fio_hint_supervisor = [0x418, 0x449, 0x438, 0x442, 0x435, 0x20, 0x424, 0x418, 0x41E, 0x20, 0x440, 0x443,
   0x43A, 0x43E, 0x432, 0x43E, 0x434, 0x438, 0x442, 0x435, 0x43B, 0x44F, 0x20, 0x43F,
   0x43E, 0x441, 0x43B, 0x435, 0x20, 0x441, 0x43B, 0x43E, 0x432, 0x20, 0x27, 0x440,
   0x443, 0x43A, 0x43E, 0x432, 0x43E, 0x434, 0x438, 0x442, 0x435, 0x43B, 0x44C, 0x27,
   0x2C, 0x20, 0x27, 0x43D, 0x430, 0x443, 0x447, 0x43D, 0x44B, 0x439, 0x20, 0x440,
   0x443, 0x43A, 0x43E, 0x432, 0x43E, 0x434, 0x438, 0x442, 0x435, 0x43B, 0x44C, 0x27,
   0x20, 0x43D, 0x430, 0x20, 0x442, 0x438, 0x442, 0x443, 0x43B, 0x44C, 0x43D, 0x43E,
   0x439, 0x20, 0x441, 0x442, 0x440, 0x430, 0x43D, 0x438, 0x446, 0x435]"

definition fio_hint_abbrev :: jsstring where \<comment> \<open>line 361: find every abbreviation like 'I.I. Ivanov' and replace it by the full name\<close>
  "fio_hint_abbrev = [0x41D, 0x430, 0x439, 0x434, 0x438, 0x442, 0x435, 0x20, 0x432, 0x441, 0x435, 0x20,
   0x441, 0x43E, 0x43A, 0x440, 0x430, 0x449, 0x435, 0x43D, 0x438, 0x44F, 0x20, 0x432,
   0x438, 0x434, 0x430, 0x20, 0x27, 0x418, 0x2E, 0x418, 0x2E, 0x20, 0x418, 0x432,
   0x430, 0x43D, 0x43E, 0x432, 0x27, 0x20, 0x438, 0x20, 0x437, 0x430, 0x43C, 0x435,
   0x43D, 0x438, 0x442, 0x435, 0x20, 0x43D, 0x430, 0x20, 0x43F, 0x43E, 0x43B, 0x43D,
   0x43E, 0x435, 0x20, 0x438, 0x43C, 0x44F, 0x20, 0x27, 0x418, 0x432, 0x430, 0x43D,
   0x20, 0x418, 0x432, 0x430, 0x43D, 0x43E, 0x432, 0x438, 0x447, 0x20, 0x418, 0x432,
   0x430, 0x43D, 0x43E, 0x432, 0x27]"

definition fio_hint_case :: jsstring where \<comment> \<open>line 365: check the case of the full name after prepositions: 'from the student' takes the genitive\<close>
  "fio_hint_case = [0x41F, 0x440, 0x43E, 0x432, 0x435, 0x440, 0x44C, 0x442, 0x435, 0x20, 0x43F, 0x430,
   0x434, 0x435, 0x436, 0x20, 0x424, 0x418, 0x41E, 0x20, 0x43F, 0x43E, 0x441, 0x43B,
   0x435, 0x20, 0x43F, 0x440, 0x435, 0x434, 0x43B, 0x43E, 0x433, 0x43E, 0x432, 0x3A,
   0x20, 0x27, 0x43E, 0x442, 0x20, 0x441, 0x442, 0x443, 0x434, 0x435, 0x43D, 0x442,
   0x430, 0x27, 0x20, 0x2192, 0x20, 0x440, 0x43E, 0x434, 0x438, 0x442, 0x435, 0x43B,
   0x44C, 0x43D, 0x44B, 0x439, 0x20, 0x43F, 0x430, 0x434, 0x435, 0x436]"

definition fio_hint_search_open :: jsstring where \<comment> \<open>line 372: look in the text: (opening quote)\<close>
  "fio_hint_search_open = [0x418, 0x449, 0x438, 0x442, 0x435, 0x20, 0x432, 0x20, 0x442, 0x435, 0x43A, 0x441,
   0x442, 0x435, 0x3A, 0x20, 0x22]"

definition fio_hint_search_close :: jsstring where \<comment> \<open>line 372: dots and closing quote\<close>
  "fio_hint_search_close = [0x2E, 0x2E, 0x2E, 0x22]"

definition fio_hint_check_all :: jsstring where \<comment> \<open>line 375: check every mention of the full name on the title page and in the documents\<close>
  "fio_hint_check_all = [0x41F, 0x440, 0x43E, 0x432, 0x435, 0x440, 0x44C, 0x442, 0x435, 0x20, 0x432, 0x441,
   0x435, 0x20, 0x443, 0x43F, 0x43E, 0x43C, 0x438, 0x43D, 0x430, 0x43D, 0x438, 0x44F,
   0x20, 0x424, 0x418, 0x41E, 0x20, 0x43D, 0x430, 0x20, 0x442, 0x438, 0x442, 0x443,
   0x43B, 0x44C, 0x43D, 0x43E, 0x439, 0x20, 0x441, 0x442, 0x440, 0x430, 0x43D, 0x438,
   0x446, 0x435, 0x20, 0x438, 0x20, 0x432, 0x20, 0x434, 0x43E, 0x43A, 0x443, 0x43C,
   0x435, 0x43D, 0x442, 0x430, 0x445]"

definition fio_hint_generic :: jsstring where \<comment> \<open>line 378: check the spelling of the full name in the document\<close>
  "fio_hint_generic = [0x41F, 0x440, 0x43E, 0x432, 0x435, 0x440, 0x44C, 0x442, 0x435, 0x20, 0x43F, 0x440,
   0x430, 0x432, 0x438, 0x43B, 0x44C, 0x43D, 0x43E, 0x441, 0x442, 0x44C, 0x20, 0x43D,
   0x430, 0x43F, 0x438, 0x441, 0x430, 0x43D, 0x438, 0x44F, 0x20, 0x424, 0x418, 0x41E,
   0x20, 0x432, 0x20, 0x434, 0x43E, 0x43A, 0x443, 0x43C, 0x435, 0x43D, 0x442, 0x435]"

definition order_hint_not_found :: jsstring where \<comment> \<open>line 385: look for the order number in the document header, with two format examples\<close>
  "order_hint_not_found = [0x418, 0x449, 0x438, 0x442, 0x435, 0x20, 0x43D, 0x43E, 0x43C, 0x435, 0x440, 0x20,
   0x43F, 0x440, 0x438, 0x43A, 0x430, 0x437, 0x430, 0x2F, 0x440, 0x430, 0x441, 0x43F,
   0x43E, 0x440, 0x44F, 0x436, 0x435, 0x43D, 0x438, 0x44F, 0x20, 0x432, 0x20, 0x448,
   0x430, 0x43F, 0x43A, 0x435, 0x20, 0x434, 0x43E, 0x43A, 0x443, 0x43C, 0x435, 0x43D,
   0x442, 0x430, 0x2C, 0x20, 0x43E, 0x431, 0x44B, 0x447, 0x43D, 0x43E, 0x20, 0x432,
   0x20, 0x444, 0x43E, 0x440, 0x43C, 0x430, 0x442, 0x435, 0x3A, 0x20, 0x27, 0x2116,
   0x20, 0x33, 0x33, 0x2E, 0x30, 0x32, 0x2D, 0x30, 0x35, 0x2F, 0x33, 0x33, 0x34, 0x27,
   0x20, 0x438, 0x43B, 0x438, 0x20, 0x27, 0x41F, 0x440, 0x438, 0x43A, 0x430, 0x437,
   0x20, 0x2116, 0x31, 0x32, 0x33, 0x2F, 0x32, 0x30, 0x32, 0x34, 0x27]"

definition order_hint_format :: jsstring where \<comment> \<open>line 389: check the number format; three accepted patterns, one per line\<close>
  "order_hint_format = [0x41F, 0x440, 0x43E, 0x432, 0x435, 0x440, 0x44C, 0x442, 0x435, 0x20, 0x444, 0x43E,
   0x440, 0x43C, 0x430, 0x442, 0x20, 0x43D, 0x43E, 0x43C, 0x435, 0x440, 0x430, 0x2E,
   0x20, 0x41F, 0x440, 0x438, 0x43C, 0x435, 0x440, 0x44B, 0x20, 0x43F, 0x440, 0x430,
   0x432, 0x438, 0x43B, 0x44C, 0x43D, 0x44B, 0x445, 0x20, 0x444, 0x43E, 0x440, 0x43C,
   0x430, 0x442, 0x43E, 0x432, 0x3A, 0xA, 0x2022, 0x20, 0x33, 0x33, 0x2E, 0x30, 0x32,
   0x2D, 0x30, 0x35, 0x2F, 0x33, 0x33, 0x34, 0x20, 0x28, 0x43A, 0x43E, 0x434, 0x20,
   0x43F, 0x43E, 0x434, 0x440, 0x430, 0x437, 0x434, 0x435, 0x43B, 0x435, 0x43D, 0x438,
   0x44F, 0x2D, 0x43D, 0x43E, 0x43C, 0x435, 0x440, 0x2F, 0x43F, 0x43E, 0x440, 0x44F,
   0x434, 0x43A, 0x43E, 0x432, 0x44B, 0x439, 0x29, 0xA, 0x2022, 0x20, 0x31, 0x32, 0x33,
   0x2F, 0x32, 0x30, 0x32, 0x34, 0x20, 0x28, 0x43D, 0x43E, 0x43C, 0x435, 0x440, 0x2F,
   0x433, 0x43E, 0x434, 0x29, 0xA, 0x2022, 0x20, 0x34, 0x35, 0x36, 0x2D, 0x440, 0x20,
   0x28, 0x43D, 0x43E, 0x43C, 0x435, 0x440, 0x2D, 0x431, 0x443, 0x43A, 0x432, 0x430,
   0x20, 0x443, 0x43A, 0x430, 0x437, 0x430, 0x29]"

definition order_hint_chars :: jsstring where \<comment> \<open>line 393: only digits, period, dash and slash are allowed in the order number; remove other characters\<close>
  "order_hint_chars = [0x412, 0x20, 0x43D, 0x43E, 0x43C, 0x435, 0x440, 0x435, 0x20, 0x43F, 0x440, 0x438,
   0x43A, 0x430, 0x437, 0x430, 0x20, 0x440, 0x430, 0x437, 0x440, 0x435, 0x448, 0x435,
   0x43D, 0x44B, 0x20, 0x442, 0x43E, 0x43B, 0x44C, 0x43A, 0x43E, 0x3A, 0x20, 0x446,
   0x438, 0x444, 0x440, 0x44B, 0x20, 0x30, 0x2D, 0x39, 0x2C, 0x20, 0x442, 0x43E, 0x447,
   0x43A, 0x430, 0x20, 0x2E, 0x2C, 0x20, 0x442, 0x438, 0x440, 0x435, 0x20, 0x2D, 0x2C,
   0x20, 0x441, 0x43B, 0x44D, 0x448, 0x20, 0x2F, 0x2E, 0x20, 0x423, 0x434, 0x430,
   0x43B, 0x438, 0x442, 0x435, 0x20, 0x434, 0x440, 0x443, 0x433, 0x438, 0x435, 0x20,
   0x441, 0x438, 0x43C, 0x432, 0x43E, 0x43B, 0x44B, 0x2E]"

definition order_hint_short :: jsstring where \<comment> \<open>line 397: the order number must have at least 3 characters, with an example\<close>
  "order_hint_short = [0x41D, 0x43E, 0x43C, 0x435, 0x440, 0x20, 0x43F, 0x440, 0x438, 0x43A, 0x430, 0x437,
   0x430, 0x20, 0x434, 0x43E, 0x43B, 0x436, 0x435, 0x43D, 0x20, 0x441, 0x43E, 0x434,
   0x435, 0x440, 0x436, 0x430, 0x442, 0x44C, 0x20, 0x43C, 0x438, 0x43D, 0x438, 0x43C,
   0x443, 0x43C, 0x20, 0x33, 0x20, 0x441, 0x438, 0x43C, 0x432, 0x43E, 0x43B, 0x430,
   0x20, 0x28, 0x43D, 0x430, 0x43F, 0x440, 0x438, 0x43C, 0x435, 0x440, 0x2C, 0x20,
   0x27, 0x31, 0x2F, 0x32, 0x34, 0x27, 0x20, 0x2014, 0x20, 0x43D, 0x435, 0x43F, 0x440,
   0x430, 0x432, 0x438, 0x43B, 0x44C, 0x43D, 0x43E, 0x2C, 0x20, 0x27, 0x31, 0x32, 0x33,
   0x2F, 0x32, 0x30, 0x32, 0x34, 0x27, 0x20, 0x2014, 0x20, 0x43F, 0x440, 0x430, 0x432,
   0x438, 0x43B, 0x44C, 0x43D, 0x43E, 0x29]"

definition order_hint_generic :: jsstring where \<comment> \<open>line 400: check the order number in the document\<close>
  "order_hint_generic = [0x41F, 0x440, 0x43E, 0x432, 0x435, 0x440, 0x44C, 0x442, 0x435, 0x20, 0x43D, 0x43E,
   0x43C, 0x435, 0x440, 0x20, 0x43F, 0x440, 0x438, 0x43A, 0x430, 0x437, 0x430, 0x2F,
   0x440, 0x430, 0x441, 0x43F, 0x43E, 0x440, 0x44F, 0x436, 0x435, 0x43D, 0x438, 0x44F,
   0x20, 0x432, 0x20, 0x434, 0x43E, 0x43A, 0x443, 0x43C, 0x435, 0x43D, 0x442, 0x435]"

definition loc_text_title :: jsstring where \<comment> \<open>line 580: title page (first page of the document)\<close>
  "loc_text_title = [0x422, 0x438, 0x442, 0x443, 0x43B, 0x44C, 0x43D, 0x430, 0x44F, 0x20, 0x441, 0x442,
   0x440, 0x430, 0x43D, 0x438, 0x446, 0x430, 0x20, 0x28, 0x43F, 0x435, 0x440, 0x432,
   0x430, 0x44F, 0x20, 0x441, 0x442, 0x440, 0x430, 0x43D, 0x438, 0x446, 0x430, 0x20,
   0x434, 0x43E, 0x43A, 0x443, 0x43C, 0x435, 0x43D, 0x442, 0x430, 0x29]"

definition loc_text_document :: jsstring where \<comment> \<open>line 584: main text of the document\<close>
  "loc_text_document = [0x41E, 0x441, 0x43D, 0x43E, 0x432, 0x43D, 0x43E, 0x439, 0x20, 0x442, 0x435, 0x43A,
   0x441, 0x442, 0x20, 0x434, 0x43E, 0x43A, 0x443, 0x43C, 0x435, 0x43D, 0x442, 0x430]"

definition loc_text_table :: jsstring where \<comment> \<open>line 588: schedule table\<close>
  "loc_text_table = [0x422, 0x430, 0x431, 0x43B, 0x438, 0x446, 0x430, 0x20, 0x43A, 0x430, 0x43B, 0x435,
   0x43D, 0x434, 0x430, 0x440, 0x43D, 0x43E, 0x433, 0x43E, 0x20, 0x43F, 0x43B, 0x430,
   0x43D, 0x430]"

definition loc_text_page_open :: jsstring where \<comment> \<open>line 593: 'Stranitsa ' (page)\<close>
  "loc_text_page_open = [0x421, 0x442, 0x440, 0x430, 0x43D, 0x438, 0x446, 0x430, 0x20]"

definition loc_text_page_close :: jsstring where \<comment> \<open>line 593: (navigate to this page in the document)\<close>
  "loc_text_page_close = [0x20, 0x28, 0x43F, 0x435, 0x440, 0x435, 0x439, 0x434, 0x438, 0x442, 0x435, 0x20,
   0x43D, 0x430, 0x20, 0x44D, 0x442, 0x443, 0x20, 0x441, 0x442, 0x440, 0x430, 0x43D,
   0x438, 0x446, 0x443, 0x20, 0x432, 0x20, 0x434, 0x43E, 0x43A, 0x443, 0x43C, 0x435,
   0x43D, 0x442, 0x435, 0x29]"

definition icon_pin :: jsstring where \<comment> \<open>line 577: round pushpin\<close>
  "icon_pin = [0xD83D, 0xDCCD]"

definition icon_clipboard :: jsstring where \<comment> \<open>line 581: clipboard\<close>
  "icon_clipboard = [0xD83D, 0xDCCB]"

definition icon_page :: jsstring where \<comment> \<open>line 585: page facing up\<close>
  "icon_page = [0xD83D, 0xDCC4]"

definition icon_chart :: jsstring where \<comment> \<open>line 589: bar chart\<close>
  "icon_chart = [0xD83D, 0xDCCA]"

definition icon_book :: jsstring where \<comment> \<open>line 594: open book\<close>
  "icon_book = [0xD83D, 0xDCD6]"

definition icon_bullet :: jsstring where \<comment> \<open>line 331: bullet\<close>
  "icon_bullet = [0x2022]"

definition icon_person :: jsstring where \<comment> \<open>line 332: bust in silhouette\<close>
  "icon_person = [0xD83D, 0xDC64]"

definition str_br :: jsstring where \<comment> \<open>line 567\<close>
  "str_br = ascii ''<br>''"

definition str_net :: jsstring where \<comment> \<open>line 411: 'net' (none)\<close>
  "str_net = [0x43D, 0x435, 0x442]"

definition flt_label_critical :: jsstring where \<comment> \<open>line 473: 'Kritichnye'\<close>
  "flt_label_critical = [0x41A, 0x440, 0x438, 0x442, 0x438, 0x447, 0x43D, 0x44B, 0x435]"

definition flt_label_warning :: jsstring where \<comment> \<open>line 473: 'Preduprezhdeniya'\<close>
  "flt_label_warning = [0x41F, 0x440, 0x435, 0x434, 0x443, 0x43F, 0x440, 0x435, 0x436, 0x434, 0x435, 0x43D,
   0x438, 0x44F]"

definition flt_label_info :: jsstring where \<comment> \<open>line 473: 'Info'\<close>
  "flt_label_info = [0x418, 0x43D, 0x444, 0x43E]"

definition flt_label_all :: jsstring where \<comment> \<open>line 474: 'Vse' (all)\<close>
  "flt_label_all = [0x412, 0x441, 0x435]"

definition word_Titulnaya :: jsstring where \<comment> \<open>line 333\<close>
  "word_Titulnaya = [0x422, 0x438, 0x442, 0x443, 0x43B, 0x44C, 0x43D, 0x430, 0x44F]"

definition word_Stranitsa :: jsstring where \<comment> \<open>line 334\<close>
  "word_Stranitsa = [0x421, 0x442, 0x440, 0x430, 0x43D, 0x438, 0x446, 0x430]"

definition word_Tablitsa :: jsstring where \<comment> \<open>line 335\<close>
  "word_Tablitsa = [0x422, 0x430, 0x431, 0x43B, 0x438, 0x446, 0x430]"

definition exp_title :: jsstring where \<comment> \<open>line 73: DOCUMENT AUDIT REPORT\<close>
  "exp_title = [0x41E, 0x422, 0x427, 0x401, 0x422, 0x20, 0x41F, 0x420, 0x41E, 0x412, 0x415, 0x420,
   0x41A, 0x418, 0x20, 0x414, 0x41E, 0x41A, 0x423, 0x41C, 0x415, 0x41D, 0x422, 0x410,
   0xA]"

definition exp_date :: jsstring where \<comment> \<open>line 74: audit date\<close>
  "exp_date = [0x414, 0x430, 0x442, 0x430, 0x20, 0x43F, 0x440, 0x43E, 0x432, 0x435, 0x440, 0x43A,
   0x438, 0x3A, 0x20]"

definition exp_profile :: jsstring where \<comment> \<open>line 75: audit profile\<close>
  "exp_profile = [0x41F, 0x440, 0x43E, 0x444, 0x438, 0x43B, 0x44C, 0x20, 0x43F, 0x440, 0x43E, 0x432,
   0x435, 0x440, 0x43A, 0x438, 0x3A, 0x20]"

definition exp_unspecified :: jsstring where \<comment> \<open>line 75: 'ne ukazan' (not specified)\<close>
  "exp_unspecified = [0x43D, 0x435, 0x20, 0x443, 0x43A, 0x430, 0x437, 0x430, 0x43D]"

definition exp_file :: jsstring where \<comment> \<open>line 76: file\<close>
  "exp_file = [0x424, 0x430, 0x439, 0x43B, 0x3A, 0x20]"

definition exp_order_number :: jsstring where \<comment> \<open>line 82: order number\<close>
  "exp_order_number = [0x41D, 0x43E, 0x43C, 0x435, 0x440, 0x20, 0x43F, 0x440, 0x438, 0x43A, 0x430, 0x437,
   0x430, 0x3A, 0x20]"

definition exp_summary :: jsstring where \<comment> \<open>line 89: SUMMARY\<close>
  "exp_summary = [0x421, 0x412, 0x41E, 0x414, 0x41A, 0x410, 0x3A, 0xA]"

definition exp_total :: jsstring where \<comment> \<open>line 90: violations in total\<close>
  "exp_total = [0x412, 0x441, 0x435, 0x433, 0x43E, 0x20, 0x43D, 0x430, 0x440, 0x443, 0x448, 0x435,
   0x43D, 0x438, 0x439, 0x3A, 0x20]"

definition exp_critical :: jsstring where \<comment> \<open>line 91: critical\<close>
  "exp_critical = [0x41A, 0x440, 0x438, 0x442, 0x438, 0x447, 0x43D, 0x44B, 0x445, 0x3A, 0x20]"

definition exp_warning :: jsstring where \<comment> \<open>line 92: warnings\<close>
  "exp_warning = [0x41F, 0x440, 0x435, 0x434, 0x443, 0x43F, 0x440, 0x435, 0x436, 0x434, 0x435, 0x43D,
   0x438, 0x439, 0x3A, 0x20]"

definition exp_info :: jsstring where \<comment> \<open>line 93: informational\<close>
  "exp_info = [0x418, 0x43D, 0x444, 0x43E, 0x440, 0x43C, 0x430, 0x446, 0x438, 0x43E, 0x43D, 0x43D,
   0x44B, 0x445, 0x3A, 0x20]"

definition exp_distribution :: jsstring where \<comment> \<open>line 96: DISTRIBUTION OF ERRORS OVER THE DOCUMENT\<close>
  "exp_distribution = [0x420, 0x410, 0x421, 0x41F, 0x420, 0x415, 0x414, 0x415, 0x41B, 0x415, 0x41D, 0x418,
   0x415, 0x20, 0x41E, 0x428, 0x418, 0x411, 0x41E, 0x41A, 0x20, 0x41F, 0x41E, 0x20,
   0x414, 0x41E, 0x41A, 0x423, 0x41C, 0x415, 0x41D, 0x422, 0x423, 0x3A, 0xA]"

definition exp_bullet :: jsstring where \<comment> \<open>line 122: bullet and space\<close>
  "exp_bullet = [0x2022, 0x20]"

definition exp_errors :: jsstring where \<comment> \<open>line 122: 'oshibok' (errors)\<close>
  "exp_errors = [0x20, 0x43E, 0x448, 0x438, 0x431, 0x43E, 0x43A, 0xA]"

definition exp_spread :: jsstring where \<comment> \<open>line 125: the errors are spread across the whole document\<close>
  "exp_spread = [0x41E, 0x448, 0x438, 0x431, 0x43A, 0x438, 0x20, 0x440, 0x430, 0x441, 0x43F, 0x440,
   0x435, 0x434, 0x435, 0x43B, 0x435, 0x43D, 0x44B, 0x20, 0x43F, 0x43E, 0x20, 0x432,
   0x441, 0x435, 0x43C, 0x443, 0x20, 0x434, 0x43E, 0x43A, 0x443, 0x43C, 0x435, 0x43D,
   0x442, 0x443, 0xA]"

definition exp_detailed :: jsstring where \<comment> \<open>line 132: DETAILED LIST OF VIOLATIONS\<close>
  "exp_detailed = [0x41F, 0x41E, 0x414, 0x420, 0x41E, 0x411, 0x41D, 0x42B, 0x419, 0x20, 0x421, 0x41F,
   0x418, 0x421, 0x41E, 0x41A, 0x20, 0x41D, 0x410, 0x420, 0x423, 0x428, 0x415, 0x41D,
   0x418, 0x419, 0x3A, 0xA]"

definition exp_hint_student :: jsstring where \<comment> \<open>line 158: WHERE TO LOOK: the student's full name, on the title page\<close>
  "exp_hint_student = [0x413, 0x414, 0x415, 0x20, 0x418, 0x421, 0x41A, 0x410, 0x422, 0x42C, 0x3A, 0x20,
   0x418, 0x449, 0x438, 0x442, 0x435, 0x20, 0x424, 0x418, 0x41E, 0x20, 0x441, 0x442,
   0x443, 0x434, 0x435, 0x43D, 0x442, 0x430, 0x20, 0x43F, 0x43E, 0x441, 0x43B, 0x435,
   0x20, 0x441, 0x43B, 0x43E, 0x432, 0x20, 0x27, 0x43E, 0x431, 0x443, 0x447, 0x430,
   0x44E, 0x449, 0x435, 0x433, 0x43E, 0x441, 0x44F, 0x27, 0x2C, 0x20, 0x27, 0x434,
   0x43E, 0x43F, 0x443, 0x441, 0x442, 0x438, 0x442, 0x44C, 0x27, 0x2C, 0x20, 0x27,
   0x441, 0x442, 0x443, 0x434, 0x435, 0x43D, 0x442, 0x430, 0x27, 0x20, 0x43D, 0x430,
   0x20, 0x442, 0x438, 0x442, 0x443, 0x43B, 0x44C, 0x43D, 0x43E, 0x439, 0x20, 0x441,
   0x442, 0x440, 0x430, 0x43D, 0x438, 0x446, 0x435, 0xA]"

definition exp_hint_supervisor :: jsstring where \<comment> \<open>line 161: WHERE TO LOOK: the supervisor's full name, on the title page\<close>
  "exp_hint_supervisor = [0x413, 0x414, 0x415, 0x20, 0x418, 0x421, 0x41A, 0x410, 0x422, 0x42C, 0x3A, 0x20,
   0x418, 0x449, 0x438, 0x442, 0x435, 0x20, 0x424, 0x418, 0x41E, 0x20, 0x440, 0x443,
   0x43A, 0x43E, 0x432, 0x43E, 0x434, 0x438, 0x442, 0x435, 0x43B, 0x44F, 0x20, 0x43F,
   0x43E, 0x441, 0x43B, 0x435, 0x20, 0x441, 0x43B, 0x43E, 0x432, 0x20, 0x27, 0x440,
   0x443, 0x43A, 0x43E, 0x432, 0x43E, 0x434, 0x438, 0x442, 0x435, 0x43B, 0x44C, 0x27,
   0x2C, 0x20, 0x27, 0x43D, 0x430, 0x443, 0x447, 0x43D, 0x44B, 0x439, 0x20, 0x440,
   0x443, 0x43A, 0x43E, 0x432, 0x43E, 0x434, 0x438, 0x442, 0x435, 0x43B, 0x44C, 0x27,
   0x20, 0x43D, 0x430, 0x20, 0x442, 0x438, 0x442, 0x443, 0x43B, 0x44C, 0x43D, 0x43E,
   0x439, 0x20, 0x441, 0x442, 0x440, 0x430, 0x43D, 0x438, 0x446, 0x435, 0xA]"

definition exp_hint_abbrev_1 :: jsstring where \<comment> \<open>line 166: WHERE TO LOOK: every abbreviation like 'I.I. Ivanov'\<close>
  "exp_hint_abbrev_1 = [0x413, 0x414, 0x415, 0x20, 0x418, 0x421, 0x41A, 0x410, 0x422, 0x42C, 0x3A, 0x20,
   0x41D, 0x430, 0x439, 0x434, 0x438, 0x442, 0x435, 0x20, 0x432, 0x441, 0x435, 0x20,
   0x441, 0x43E, 0x43A, 0x440, 0x430, 0x449, 0x435, 0x43D, 0x438, 0x44F, 0x20, 0x432,
   0x438, 0x434, 0x430, 0x20, 0x27, 0x418, 0x2E, 0x418, 0x2E, 0x20, 0x418, 0x432,
   0x430, 0x43D, 0x43E, 0x432, 0x27, 0x20, 0x432, 0x20, 0x434, 0x43E, 0x43A, 0x443,
   0x43C, 0x435, 0x43D, 0x442, 0x435, 0xA]"

definition exp_hint_abbrev_2 :: jsstring where \<comment> \<open>line 167: RIGHT FORMAT: full name without periods\<close>
  "exp_hint_abbrev_2 = [0x41F, 0x420, 0x410, 0x412, 0x418, 0x41B, 0x42C, 0x41D, 0x42B, 0x419, 0x20, 0x424,
   0x41E, 0x420, 0x41C, 0x410, 0x422, 0x3A, 0x20, 0x27, 0x418, 0x432, 0x430, 0x43D,
   0x20, 0x418, 0x432, 0x430, 0x43D, 0x43E, 0x432, 0x438, 0x447, 0x20, 0x418, 0x432,
   0x430, 0x43D, 0x43E, 0x432, 0x27, 0x20, 0x28, 0x43F, 0x43E, 0x43B, 0x43D, 0x43E,
   0x435, 0x20, 0x438, 0x43C, 0x44F, 0x20, 0x431, 0x435, 0x437, 0x20, 0x442, 0x43E,
   0x447, 0x435, 0x43A, 0x29, 0xA]"

definition exp_hint_abbrev_3 :: jsstring where \<comment> \<open>line 168: EXAMPLE: before and after\<close>
  "exp_hint_abbrev_3 = [0x41F, 0x420, 0x418, 0x41C, 0x415, 0x420, 0x3A, 0x20, 0x274C, 0x20, 0x418, 0x2E,
   0x418, 0x2E, 0x20, 0x418, 0x432, 0x430, 0x43D, 0x43E, 0x432, 0x20, 0x2192, 0x20,
   0x2705, 0x20, 0x418, 0x432, 0x430, 0x43D, 0x20, 0x418, 0x432, 0x430, 0x43D, 0x43E,
   0x432, 0x438, 0x447, 0x20, 0x418, 0x432, 0x430, 0x43D, 0x43E, 0x432, 0xA]"

definition exp_hint_case_1 :: jsstring where \<comment> \<open>line 172: WHERE TO LOOK: the case of the full name after prepositions\<close>
  "exp_hint_case_1 = [0x413, 0x414, 0x415, 0x20, 0x418, 0x421, 0x41A, 0x410, 0x422, 0x42C, 0x3A, 0x20,
   0x41F, 0x440, 0x43E, 0x432, 0x435, 0x440, 0x44C, 0x442, 0x435, 0x20, 0x43F, 0x430,
   0x434, 0x435, 0x436, 0x20, 0x424, 0x418, 0x41E, 0x20, 0x43F, 0x43E, 0x441, 0x43B,
   0x435, 0x20, 0x43F, 0x440, 0x435, 0x434, 0x43B, 0x43E, 0x433, 0x43E, 0x432, 0x20,
   0x432, 0x20, 0x434, 0x43E, 0x43A, 0x443, 0x43C, 0x435, 0x43D, 0x442, 0x435, 0xA]"

definition exp_hint_case_2 :: jsstring where \<comment> \<open>line 173: RULE: 'from the student' takes the genitive\<close>
  "exp_hint_case_2 = [0x41F, 0x420, 0x410, 0x412, 0x418, 0x41B, 0x41E, 0x3A, 0x20, 0x27, 0x43E, 0x442, 0x20,
   0x441, 0x442, 0x443, 0x434, 0x435, 0x43D, 0x442, 0x430, 0x27, 0x20, 0x442, 0x440,
   0x435, 0x431, 0x443, 0x435, 0x442, 0x20, 0x440, 0x43E, 0x434, 0x438, 0x442, 0x435,
   0x43B, 0x44C, 0x43D, 0x44B, 0x439, 0x20, 0x43F, 0x430, 0x434, 0x435, 0x436, 0xA]"

definition exp_hint_case_3 :: jsstring where \<comment> \<open>line 174: EXAMPLE: before and after\<close>
  "exp_hint_case_3 = [0x41F, 0x420, 0x418, 0x41C, 0x415, 0x420, 0x3A, 0x20, 0x274C, 0x20, 0x43E, 0x442,
   0x20, 0x441, 0x442, 0x443, 0x434, 0x435, 0x43D, 0x442, 0x20, 0x418, 0x432, 0x430,
   0x43D, 0x43E, 0x432, 0x20, 0x418, 0x432, 0x430, 0x43D, 0x20, 0x2192, 0x20, 0x2705,
   0x20, 0x43E, 0x442, 0x20, 0x441, 0x442, 0x443, 0x434, 0x435, 0x43D, 0x442, 0x430,
   0x20, 0x418, 0x432, 0x430, 0x43D, 0x43E, 0x432, 0x430, 0x20, 0x418, 0x432, 0x430,
   0x43D, 0x430, 0xA]"

definition exp_hint_fallback :: jsstring where \<comment> \<open>line 178: WHERE TO LOOK: every mention of the full name on the title page\<close>
  "exp_hint_fallback = [0x413, 0x414, 0x415, 0x20, 0x418, 0x421, 0x41A, 0x410, 0x422, 0x42C, 0x3A, 0x20,
   0x41F, 0x440, 0x43E, 0x432, 0x435, 0x440, 0x44C, 0x442, 0x435, 0x20, 0x432, 0x441,
   0x435, 0x20, 0x443, 0x43F, 0x43E, 0x43C, 0x438, 0x43D, 0x430, 0x43D, 0x438, 0x44F,
   0x20, 0x424, 0x418, 0x41E, 0x20, 0x43D, 0x430, 0x20, 0x442, 0x438, 0x442, 0x443,
   0x43B, 0x44C, 0x43D, 0x43E, 0x439, 0x20, 0x441, 0x442, 0x440, 0x430, 0x43D, 0x438,
   0x446, 0x435, 0xA]"

definition exp_loc_title :: jsstring where \<comment> \<open>line 184: LOCATION: title page (first page of the document)\<close>
  "exp_loc_title = [0x41C, 0x415, 0x421, 0x422, 0x41E, 0x41F, 0x41E, 0x41B, 0x41E, 0x416, 0x415, 0x41D,
   0x418, 0x415, 0x3A, 0x20, 0x422, 0x438, 0x442, 0x443, 0x43B, 0x44C, 0x43D, 0x430,
   0x44F, 0x20, 0x441, 0x442, 0x440, 0x430, 0x43D, 0x438, 0x446, 0x430, 0x20, 0x28,
   0x43F, 0x435, 0x440, 0x432, 0x430, 0x44F, 0x20, 0x441, 0x442, 0x440, 0x430, 0x43D,
   0x438, 0x446, 0x430, 0x20, 0x434, 0x43E, 0x43A, 0x443, 0x43C, 0x435, 0x43D, 0x442,
   0x430, 0x29, 0xA]"

definition exp_loc_table :: jsstring where \<comment> \<open>line 187: LOCATION: schedule table\<close>
  "exp_loc_table = [0x41C, 0x415, 0x421, 0x422, 0x41E, 0x41F, 0x41E, 0x41B, 0x41E, 0x416, 0x415, 0x41D,
   0x418, 0x415, 0x3A, 0x20, 0x422, 0x430, 0x431, 0x43B, 0x438, 0x446, 0x430, 0x20,
   0x43A, 0x430, 0x43B, 0x435, 0x43D, 0x434, 0x430, 0x440, 0x43D, 0x43E, 0x433, 0x43E,
   0x20, 0x43F, 0x43B, 0x430, 0x43D, 0x430, 0xA]"

definition exp_loc_page :: jsstring where \<comment> \<open>line 191: LOCATION: page\<close>
  "exp_loc_page = [0x41C, 0x415, 0x421, 0x422, 0x41E, 0x41F, 0x41E, 0x41B, 0x41E, 0x416, 0x415, 0x41D,
   0x418, 0x415, 0x3A, 0x20, 0x421, 0x442, 0x440, 0x430, 0x43D, 0x438, 0x446, 0x430,
   0x20]"

definition exp_loc_document :: jsstring where \<comment> \<open>line 194: LOCATION: main text of the document\<close>
  "exp_loc_document = [0x41C, 0x415, 0x421, 0x422, 0x41E, 0x41F, 0x41E, 0x41B, 0x41E, 0x416, 0x415, 0x41D,
   0x418, 0x415, 0x3A, 0x20, 0x41E, 0x441, 0x43D, 0x43E, 0x432, 0x43D, 0x43E, 0x439,
   0x20, 0x442, 0x435, 0x43A, 0x441, 0x442, 0x20, 0x434, 0x43E, 0x43A, 0x443, 0x43C,
   0x435, 0x43D, 0x442, 0x430, 0xA]"

definition exp_context :: jsstring where \<comment> \<open>line 200: CONTEXT\<close>
  "exp_context = [0x41A, 0x41E, 0x41D, 0x422, 0x415, 0x41A, 0x421, 0x422, 0x3A, 0x20]"

definition exp_how :: jsstring where \<comment> \<open>line 205: HOW TO FIX\<close>
  "exp_how = [0x41A, 0x410, 0x41A, 0x20, 0x418, 0x421, 0x41F, 0x420, 0x410, 0x412, 0x418, 0x422,
   0x42C, 0x3A, 0x20]"

definition exp_rule :: jsstring where \<comment> \<open>line 210: RULE\<close>
  "exp_rule = [0x41F, 0x420, 0x410, 0x412, 0x418, 0x41B, 0x41E, 0x3A, 0x20]"

definition exp_comments :: jsstring where \<comment> \<open>line 224: COMMENTS ON THE AUDIT\<close>
  "exp_comments = [0x41A, 0x41E, 0x41C, 0x41C, 0x415, 0x41D, 0x422, 0x410, 0x420, 0x418, 0x418, 0x20,
   0x41A, 0x20, 0x41F, 0x420, 0x41E, 0x412, 0x415, 0x420, 0x41A, 0x415, 0x3A, 0xA]"

definition exp_comment :: jsstring where \<comment> \<open>line 228: COMMENT number\<close>
  "exp_comment = [0x41A, 0x41E, 0x41C, 0x41C, 0x415, 0x41D, 0x422, 0x410, 0x420, 0x418, 0x419, 0x20,
   0x23]"

definition exp_checklist :: jsstring where \<comment> \<open>line 235: CHECKLIST FOR FIXING\<close>
  "exp_checklist = [0x427, 0x415, 0x41A, 0x2D, 0x41B, 0x418, 0x421, 0x422, 0x20, 0x414, 0x41B, 0x42F,
   0x20, 0x418, 0x421, 0x41F, 0x420, 0x410, 0x412, 0x41B, 0x415, 0x41D, 0x418, 0x42F,
   0x3A, 0xA]"

definition exp_checkbox :: jsstring where \<comment> \<open>line 239: unchecked box\<close>
  "exp_checkbox = ascii ''[ ] ''"

definition exp_instruction :: jsstring where \<comment> \<open>line 242: INSTRUCTION\<close>
  "exp_instruction = [0xA, 0xA, 0x418, 0x41D, 0x421, 0x422, 0x420, 0x423, 0x41A, 0x426, 0x418, 0x42F, 0x3A,
   0xA]"

definition exp_step_1 :: jsstring where \<comment> \<open>line 243: open the document in an editor\<close>
  "exp_step_1 = [0x31, 0x2E, 0x20, 0x41E, 0x442, 0x43A, 0x440, 0x43E, 0x439, 0x442, 0x435, 0x20, 0x434,
   0x43E, 0x43A, 0x443, 0x43C, 0x435, 0x43D, 0x442, 0x20, 0x432, 0x20, 0x4D, 0x69,
   0x63, 0x72, 0x6F, 0x73, 0x6F, 0x66, 0x74, 0x20, 0x57, 0x6F, 0x72, 0x64, 0x20, 0x438,
   0x43B, 0x438, 0x20, 0x434, 0x440, 0x443, 0x433, 0x43E, 0x43C, 0x20, 0x440, 0x435,
   0x434, 0x430, 0x43A, 0x442, 0x43E, 0x440, 0x435, 0xA]"

definition exp_step_2 :: jsstring where \<comment> \<open>line 244: fix the errors according to the list above\<close>
  "exp_step_2 = [0x32, 0x2E, 0x20, 0x418, 0x441, 0x43F, 0x440, 0x430, 0x432, 0x44C, 0x442, 0x435, 0x20,
   0x43E, 0x448, 0x438, 0x431, 0x43A, 0x438, 0x20, 0x441, 0x43E, 0x433, 0x43B, 0x430,
   0x441, 0x43D, 0x43E, 0x20, 0x441, 0x43F, 0x438, 0x441, 0x43A, 0x443, 0x20, 0x432,
   0x44B, 0x448, 0x435, 0xA]"

definition exp_step_3 :: jsstring where \<comment> \<open>line 245: tick the fixed items\<close>
  "exp_step_3 = [0x33, 0x2E, 0x20, 0x41E, 0x442, 0x43C, 0x435, 0x442, 0x44C, 0x442, 0x435, 0x20, 0x433,
   0x430, 0x43B, 0x43E, 0x447, 0x43A, 0x43E, 0x439, 0x20, 0x438, 0x441, 0x43F, 0x440,
   0x430, 0x432, 0x43B, 0x435, 0x43D, 0x43D, 0x44B, 0x435, 0x20, 0x43F, 0x443, 0x43D,
   0x43A, 0x442, 0x44B, 0xA]"

definition exp_step_4 :: jsstring where \<comment> \<open>line 246: re-check the document with VerifyFlow\<close>
  "exp_step_4 = [0x34, 0x2E, 0x20, 0x41F, 0x435, 0x440, 0x435, 0x43F, 0x440, 0x43E, 0x432, 0x435,
   0x440, 0x44C, 0x442, 0x435, 0x20, 0x434, 0x43E, 0x43A, 0x443, 0x43C, 0x435, 0x43D,
   0x442, 0x20, 0x447, 0x435, 0x440, 0x435, 0x437, 0x20, 0x56, 0x65, 0x72, 0x69, 0x66,
   0x79, 0x46, 0x6C, 0x6F, 0x77, 0xA]"

definition exp_step_5 :: jsstring where \<comment> \<open>line 247: save the fixed version\<close>
  "exp_step_5 = [0x35, 0x2E, 0x20, 0x421, 0x43E, 0x445, 0x440, 0x430, 0x43D, 0x438, 0x442, 0x435, 0x20,
   0x438, 0x441, 0x43F, 0x440, 0x430, 0x432, 0x43B, 0x435, 0x43D, 0x43D, 0x443, 0x44E,
   0x20, 0x432, 0x435, 0x440, 0x441, 0x438, 0x44E, 0xA]"

definition val_missing_message :: jsstring where \<comment> \<open>line 821: the order number is not given\<close>
  "val_missing_message = [0x41D, 0x435, 0x20, 0x443, 0x43A, 0x430, 0x437, 0x430, 0x43D, 0x20, 0x43D, 0x43E,
   0x43C, 0x435, 0x440, 0x20, 0x43F, 0x440, 0x438, 0x43A, 0x430, 0x437, 0x430, 0x2F,
   0x440, 0x430, 0x441, 0x43F, 0x43E, 0x440, 0x44F, 0x436, 0x435, 0x43D, 0x438, 0x44F]"

definition val_missing_how :: jsstring where \<comment> \<open>line 822: it is recommended to give the number of the official document\<close>
  "val_missing_how = [0x420, 0x435, 0x43A, 0x43E, 0x43C, 0x435, 0x43D, 0x434, 0x443, 0x435, 0x442, 0x441,
   0x44F, 0x20, 0x443, 0x43A, 0x430, 0x437, 0x430, 0x442, 0x44C, 0x20, 0x43D, 0x43E,
   0x43C, 0x435, 0x440, 0x20, 0x43E, 0x444, 0x438, 0x446, 0x438, 0x430, 0x43B, 0x44C,
   0x43D, 0x43E, 0x433, 0x43E, 0x20, 0x434, 0x43E, 0x43A, 0x443, 0x43C, 0x435, 0x43D,
   0x442, 0x430, 0x20, 0x434, 0x43B, 0x44F, 0x20, 0x43E, 0x442, 0x447, 0x451, 0x442,
   0x43D, 0x43E, 0x441, 0x442, 0x438]"

definition val_missing_rule :: jsstring where \<comment> \<open>line 823\<close>
  "val_missing_rule = ascii ''ORDER_NUMBER_MISSING''"

definition val_short_message :: jsstring where \<comment> \<open>line 834: the order number is too short\<close>
  "val_short_message = [0x41D, 0x43E, 0x43C, 0x435, 0x440, 0x20, 0x43F, 0x440, 0x438, 0x43A, 0x430, 0x437,
   0x430, 0x20, 0x441, 0x43B, 0x438, 0x448, 0x43A, 0x43E, 0x43C, 0x20, 0x43A, 0x43E,
   0x440, 0x43E, 0x442, 0x43A, 0x438, 0x439]"

definition val_short_how :: jsstring where \<comment> \<open>line 835: the number must have at least 3 characters\<close>
  "val_short_how = [0x41D, 0x43E, 0x43C, 0x435, 0x440, 0x20, 0x434, 0x43E, 0x43B, 0x436, 0x435, 0x43D,
   0x20, 0x441, 0x43E, 0x434, 0x435, 0x440, 0x436, 0x430, 0x442, 0x44C, 0x20, 0x43D,
   0x435, 0x20, 0x43C, 0x435, 0x43D, 0x435, 0x435, 0x20, 0x33, 0x20, 0x441, 0x438,
   0x43C, 0x432, 0x43E, 0x43B, 0x43E, 0x432]"

definition val_short_rule :: jsstring where \<comment> \<open>line 836\<close>
  "val_short_rule = ascii ''ORDER_NUMBER_TOO_SHORT''"

definition val_format_message :: jsstring where \<comment> \<open>line 845: the order number has a non-standard format\<close>
  "val_format_message = [0x41D, 0x43E, 0x43C, 0x435, 0x440, 0x20, 0x43F, 0x440, 0x438, 0x43A, 0x430, 0x437,
   0x430, 0x20, 0x438, 0x43C, 0x435, 0x435, 0x442, 0x20, 0x43D, 0x435, 0x441, 0x442,
   0x430, 0x43D, 0x434, 0x430, 0x440, 0x442, 0x43D, 0x44B, 0x439, 0x20, 0x444, 0x43E,
   0x440, 0x43C, 0x430, 0x442]"

definition val_format_how :: jsstring where \<comment> \<open>line 846: recommended format, with an example\<close>
  "val_format_how = [0x420, 0x435, 0x43A, 0x43E, 0x43C, 0x435, 0x43D, 0x434, 0x443, 0x435, 0x43C, 0x44B,
   0x439, 0x20, 0x444, 0x43E, 0x440, 0x43C, 0x430, 0x442, 0x3A, 0x20, 0x27, 0x58, 0x58,
   0x58, 0x2F, 0x413, 0x413, 0x413, 0x413, 0x27, 0x20, 0x438, 0x43B, 0x438, 0x20, 0x27,
   0x58, 0x58, 0x58, 0x2F, 0x413, 0x413, 0x413, 0x413, 0x2D, 0x413, 0x413, 0x413,
   0x413, 0x27, 0x20, 0x28, 0x43D, 0x430, 0x43F, 0x440, 0x438, 0x43C, 0x435, 0x440,
   0x2C, 0x20, 0x27, 0x31, 0x32, 0x33, 0x2F, 0x32, 0x30, 0x32, 0x34, 0x27, 0x29]"

definition val_format_rule :: jsstring where \<comment> \<open>line 847\<close>
  "val_format_rule = ascii ''ORDER_NUMBER_FORMAT_WARNING''"

definition val_chars_message :: jsstring where \<comment> \<open>line 856: the order number contains invalid characters\<close>
  "val_chars_message = [0x41D, 0x43E, 0x43C, 0x435, 0x440, 0x20, 0x43F, 0x440, 0x438, 0x43A, 0x430, 0x437,
   0x430, 0x20, 0x441, 0x43E, 0x434, 0x435, 0x440, 0x436, 0x438, 0x442, 0x20, 0x43D,
   0x435, 0x434, 0x43E, 0x43F, 0x443, 0x441, 0x442, 0x438, 0x43C, 0x44B, 0x435, 0x20,
   0x441, 0x438, 0x43C, 0x432, 0x43E, 0x43B, 0x44B]"

definition val_chars_how :: jsstring where \<comment> \<open>line 857: remove the special characters, followed by the list of them\<close>
  "val_chars_how = [0x423, 0x434, 0x430, 0x43B, 0x438, 0x442, 0x435, 0x20, 0x441, 0x43F, 0x435, 0x446,
   0x438, 0x430, 0x43B, 0x44C, 0x43D, 0x44B, 0x435, 0x20, 0x441, 0x438, 0x43C, 0x432,
   0x43E, 0x43B, 0x44B, 0x3A, 0x20, 0x3C, 0x20, 0x3E, 0x20, 0x23, 0x20, 0x40, 0x20,
   0x24, 0x20, 0x25, 0x20, 0x5E, 0x20, 0x26, 0x20, 0x2A, 0x20, 0x28, 0x20, 0x29, 0x20,
   0x2B, 0x20, 0x3D, 0x20, 0x7C, 0x20, 0x7B, 0x20, 0x7D, 0x20, 0x5B, 0x20, 0x5D, 0x20,
   0x3A, 0x20, 0x3B, 0x20, 0x22, 0x20, 0x27, 0x20, 0x60, 0x20, 0x7E]"

definition val_chars_rule :: jsstring where \<comment> \<open>line 858\<close>
  "val_chars_rule = ascii ''ORDER_NUMBER_INVALID_CHARS''"

definition val_invalid_chars :: jsstring where \<comment> \<open>line 852: the character class of invalidCharRegex\<close>
  "val_invalid_chars = [0x3C, 0x3E, 0x23, 0x40, 0x24, 0x25, 0x5E, 0x26, 0x2A, 0x28, 0x29, 0x2B, 0x3D, 0x7C,
   0x7B, 0x7D, 0x5B, 0x5D, 0x3A, 0x3B, 0x22, 0x27, 0x60, 0x7E]"


definition ex_fio_studenta_ne_naideno :: jsstring where \<comment> \<open>'FIO studenta ne naideno' (the student's full name is not found), the scenario of the specification\<close>
  "ex_fio_studenta_ne_naideno = [0x424, 0x418, 0x41E, 0x20, 0x441, 0x442, 0x443, 0x434, 0x435, 0x43D, 0x442, 0x430,
   0x20, 0x43D, 0x435, 0x20, 0x43D, 0x430, 0x439, 0x434, 0x435, 0x43D, 0x43E]"


definition ex_nevernyi_shrift :: jsstring where \<comment> \<open>'Nevernyi razmer shrifta' (wrong font size)\<close>
  "ex_nevernyi_shrift = [0x41D, 0x435, 0x432, 0x435, 0x440, 0x43D, 0x44B, 0x439, 0x20, 0x440, 0x430, 0x437,
   0x43C, 0x435, 0x440, 0x20, 0x448, 0x440, 0x438, 0x444, 0x442, 0x430]"

definition ex_Familiya_neverno :: jsstring where \<comment> \<open>'Familiya ukazana neverno' (the surname is given wrongly)\<close>
  "ex_Familiya_neverno = [0x424, 0x430, 0x43C, 0x438, 0x43B, 0x438, 0x44F, 0x20, 0x443, 0x43A, 0x430, 0x437,
   0x430, 0x43D, 0x430, 0x20, 0x43D, 0x435, 0x432, 0x435, 0x440, 0x43D, 0x43E]"

definition ex_familiya_neverno :: jsstring where \<comment> \<open>the same message in lower case\<close>
  "ex_familiya_neverno = [0x444, 0x430, 0x43C, 0x438, 0x43B, 0x438, 0x44F, 0x20, 0x443, 0x43A, 0x430, 0x437,
   0x430, 0x43D, 0x430, 0x20, 0x43D, 0x435, 0x432, 0x435, 0x440, 0x43D, 0x43E]"

definition ex_fio_student_padezh :: jsstring where \<comment> \<open>'FIO studenta ne naideno, nevernyi padezh' (student's full name not found, wrong case)\<close>
  "ex_fio_student_padezh = [0x424, 0x418, 0x41E, 0x20, 0x441, 0x442, 0x443, 0x434, 0x435, 0x43D, 0x442, 0x430,
   0x20, 0x43D, 0x435, 0x20, 0x43D, 0x430, 0x439, 0x434, 0x435, 0x43D, 0x43E, 0x2C,
   0x20, 0x43D, 0x435, 0x432, 0x435, 0x440, 0x43D, 0x44B, 0x439, 0x20, 0x43F, 0x430,
   0x434, 0x435, 0x436]"

definition ex_sokrascheniya_padezh :: jsstring where \<comment> \<open>'Nedopustimy sokrascheniya, nevernyi padezh' (abbreviations not allowed, wrong case)\<close>
  "ex_sokrascheniya_padezh = [0x41D, 0x435, 0x434, 0x43E, 0x43F, 0x443, 0x441, 0x442, 0x438, 0x43C, 0x44B, 0x20,
   0x441, 0x43E, 0x43A, 0x440, 0x430, 0x449, 0x435, 0x43D, 0x438, 0x44F, 0x2C, 0x20,
   0x43D, 0x435, 0x432, 0x435, 0x440, 0x43D, 0x44B, 0x439, 0x20, 0x43F, 0x430, 0x434,
   0x435, 0x436]"

definition ex_hash_number :: jsstring where
  "ex_hash_number = ascii ''12#34/2024''"

definition ex_comma_number :: jsstring where
  "ex_comma_number = ascii ''12,34/2024''"

definition ex_blank :: jsstring where \<comment> \<open>three spaces\<close>
  "ex_blank = ascii ''   ''"


definition ex_file :: jsstring where
  "ex_file = ascii ''diplom.docx''"

section \<open>Location distribution\<close>

text \<open>
  The loop body of \<open>getLocationSummary\<close> (lines 300 to 323), which
  \<open>downloadReportWithComments\<close> repeats word for word (lines 102 to 118).
  \<open>hasFIO\<close> is the guard of its first branch; \<open>locationName\<close> is the value of the local
  variable of that name when the counter is incremented, and \<open>None\<close> when the issue is
  skipped by the early \<open>return\<close> for a missing location.
\<close>

definition hasFIO :: "issue \<Rightarrow> bool" where
  "hasFIO it = (case message it of None \<Rightarrow> False
     | Some m \<Rightarrow> m \<noteq> [] \<and> (js_includes m kw_FIO \<or> js_includes m kw_fio))"

definition locationName :: "issue \<Rightarrow> jsstring option" where
  "locationName it =
     (if \<not> truthy (location it) then None
      else let loc = the (location it) in Some
       (if hasFIO it then lbl_Oshibki_FIO
        else if loc = tok_title_page then lbl_Titulnaya_stranitsa
        else if js_includes loc tok_page then lbl_Stranitsa @ index1 (split 0x3A loc)
        else if loc = tok_calendar_plan_table then lbl_Tablitsa
        else if loc = tok_document then lbl_Osnovnoi_tekst
        else loc))"

text \<open>
  \<open>locationCounts\<close> is the object used as a dictionary from label to count. An association
  list keeps the insertion order of its keys; \<open>countUp\<close> is the statement
  \<open>locationCounts[k] = (locationCounts[k] || 0) + 1\<close>. Labels are taken not to collide
  with the property names every JavaScript object inherits (such as \<open>constructor\<close>), for
  which the read would not yield a number.
\<close>

definition countUp :: "(jsstring \<times> nat) list \<Rightarrow> jsstring \<Rightarrow> (jsstring \<times> nat) list" where
  "countUp counts k =
     AList.update k ((case map_of counts k of None \<Rightarrow> 0 | Some n \<Rightarrow> n) + 1) counts"

definition countIssue :: "(jsstring \<times> nat) list \<Rightarrow> issue \<Rightarrow> (jsstring \<times> nat) list" where
  "countIssue counts it = (case locationName it of None \<Rightarrow> counts | Some k \<Rightarrow> countUp counts k)"

definition locationCounts :: "issue list \<Rightarrow> (jsstring \<times> nat) list" where
  "locationCounts xs = foldl countIssue [] xs"

text \<open>
  The keyword test that opens the full-name hint family (lines 144 to 152 and 505 to 513):
  seven keywords, looked up in the message as it is written.
\<close>

definition fioFamily :: "issue \<Rightarrow> bool" where
  "fioFamily it = (case message it of None \<Rightarrow> False
     | Some m \<Rightarrow> m \<noteq> [] \<and>
         (js_includes m kw_FIO \<or> js_includes m kw_fio \<or> js_includes m kw_Familiya \<or>
          js_includes m kw_student \<or> js_includes m kw_rukovoditel \<or> js_includes m kw_padezh \<or>
          js_includes m kw_sokrascheni))"


section \<open>Severity labels and escaping\<close>

definition sevLabel :: "jsstring \<Rightarrow> jsstring" where
  "sevLabel sev =
     (if sev = sev_critical then lbl_Kritichno
      else if sev = sev_warning then lbl_Preduprezhdenie
      else if sev = sev_info then lbl_Informatsiya
      else lbl_OK)"

definition dotClass :: "jsstring \<Rightarrow> jsstring" where
  "dotClass sev =
     (if sev = sev_critical \<or> sev = sev_warning \<or> sev = sev_info then sev else cls_ok)"

definition escUnit :: "nat \<Rightarrow> jsstring" where
  "escUnit c =
     (if c = 0x26 then ascii ''&amp;''
      else if c = 0x3C then ascii ''&lt;''
      else if c = 0x3E then ascii ''&gt;''
      else if c = 0x22 then ascii ''&quot;''
      else if c = 0x27 then ascii ''&#39;''
      else [c])"

definition esc :: "jsstring \<Rightarrow> jsstring" where
  "esc s = concat (map escUnit s)"

text \<open>\<open>s.replace(/\n/g, r)\<close>: every line feed is replaced by \<open>r\<close>.\<close>

definition replaceNewlines :: "jsstring \<Rightarrow> jsstring \<Rightarrow> jsstring" where
  "replaceNewlines s r = concat (map (\<lambda>c. if c = 0xA then r else [c]) s)"

section \<open>Reports and the session\<close>

text \<open>
  A report is the parsed JSON answer of the audit service. A count of the summary is a JSON
  number or absent. \<open>issues\<close> is \<open>None\<close> when the property is not an array. The
  \<open>detected\<close> document parameters only fill a side panel and are left out.
\<close>

record summary_counts =
  critical :: "int option"
  warning :: "int option"
  info :: "int option"
  total :: "int option"

record report =
  profile :: "jsstring option"
  summary :: "summary_counts option"
  issues :: "issue list option"

record comment =
  comment_text :: jsstring
  timestamp :: jsstring

text \<open>The ambient variables of the script; \<open>chosen\<close> is the name of the chosen file.\<close>

record session =
  chosen :: "jsstring option"
  lastReport :: "report option"
  comments :: "comment list"
  currentFilter :: jsstring

text \<open>
  The first lines of \<open>renderReport\<close> (lines 406 to 413, and lines 47 to 54 of the reduced
  copy of the script): \<open>summaryOrDefault\<close> is the local \<open>s\<close>, \<open>issuesOf\<close> the local
  \<open>issues\<close>, \<open>displayedTotal\<close> the local \<open>total\<close>, that is
  \<open>s.total ?? issues.length ?? 0\<close>.
\<close>

definition summaryOrDefault :: "report \<Rightarrow> summary_counts" where
  "summaryOrDefault r = (case summary r of
       None \<Rightarrow> \<lparr>critical = Some 0, warning = Some 0, info = Some 0, total = Some 0\<rparr>
     | Some s \<Rightarrow> s)"

definition issuesOf :: "report \<Rightarrow> issue list" where
  "issuesOf r = (case issues r of None \<Rightarrow> [] | Some xs \<Rightarrow> xs)"

definition displayedTotal :: "report \<Rightarrow> int" where
  "displayedTotal r = (case total (summaryOrDefault r) of
       Some t \<Rightarrow> t
     | None \<Rightarrow> int (length (issuesOf r)))"

definition countOrZero :: "int option \<Rightarrow> int" where
  "countOrZero x = (case x of None \<Rightarrow> 0 | Some n \<Rightarrow> n)"

section \<open>Filter state\<close>

text \<open>
  Lines 464 to 467 (lines 93 to 96 of the reduced copy): \<open>issues.filter\<close> builds a new
  array of the issues that pass the test and leaves \<open>issues\<close> alone.
\<close>

definition filtered :: "jsstring \<Rightarrow> issue list \<Rightarrow> issue list" where
  "filtered flt xs =
     filter (\<lambda>it. if flt = flt_all then True
                  else toLowerCase (orElse (severity it) []) = flt) xs"

section \<open>Hint generators of the screen\<close>

text \<open>Evidence that is present and is not one of the two placeholder dashes.\<close>

definition usableEvidence :: "jsstring option \<Rightarrow> bool" where
  "usableEvidence ev = (truthy ev \<and> the ev \<noteq> str_emdash \<and> the ev \<noteq> str_hyphen)"

text \<open>
  The sub-rule tests, on the lower-cased message; \<open>getFIOHint\<close> (lines 347 to 379) and the
  export (lines 156 to 177) use the same ones.
\<close>

definition notFoundStudent :: "jsstring \<Rightarrow> bool" where
  "notFoundStudent m = (js_includes m kw_ne_naideno \<and>
     (js_includes m kw_obuchayuschegosya \<or> js_includes m kw_student))"

definition notFoundSupervisor :: "jsstring \<Rightarrow> bool" where
  "notFoundSupervisor m = (js_includes m kw_ne_naideno \<and>
     (js_includes m kw_rukovoditelya \<or> js_includes m kw_rukovoditel))"

definition abbreviationMarker :: "jsstring \<Rightarrow> bool" where
  "abbreviationMarker m =
     (js_includes m kw_sokrascheniya \<or> js_includes m kw_io \<or> js_includes m kw_i_o)"

definition caseMarker :: "jsstring \<Rightarrow> bool" where
  "caseMarker m = (js_includes m kw_padezh \<or> js_includes m kw_padezhe)"

definition nameMarker :: "jsstring \<Rightarrow> bool" where
  "nameMarker m = (js_includes m kw_fio \<or> js_includes m kw_familiya)"

text \<open>\<open>getFIOHint\<close> returns at the first sub-rule that fires.\<close>

definition getFIOHint :: "jsstring \<Rightarrow> jsstring option \<Rightarrow> jsstring" where
  "getFIOHint errorMessage ev =
     (let m = toLowerCase errorMessage in
      if notFoundStudent m then fio_hint_student
      else if notFoundSupervisor m then fio_hint_supervisor
      else if abbreviationMarker m then fio_hint_abbrev
      else if caseMarker m then fio_hint_case
      else if nameMarker m then
        (if usableEvidence ev \<and> js_includes (the ev) str_dots
         then fio_hint_search_open @ take 60 (the ev) @ fio_hint_search_close
         else fio_hint_check_all)
      else fio_hint_generic)"

definition getOrderNumberHint :: "jsstring \<Rightarrow> jsstring option \<Rightarrow> jsstring" where
  "getOrderNumberHint errorMessage ev =
     (let m = toLowerCase errorMessage in
      if js_includes m kw_ne_naiden_nomer then order_hint_not_found
      else if js_includes m kw_nestandartnyi_format then order_hint_format
      else if js_includes m kw_nedopustimye_simvoly then order_hint_chars
      else if js_includes m kw_slishkom_korotkii then order_hint_short
      else order_hint_generic)"

text \<open>The keyword test of the order-number family (lines 541 to 546).\<close>

definition orderFamily :: "issue \<Rightarrow> bool" where
  "orderFamily it = (case message it of None \<Rightarrow> False
     | Some m \<Rightarrow> m \<noteq> [] \<and>
         (js_includes m kw_nomer_prikaza \<or> js_includes m kw_prikaz \<or>
          js_includes m kw_rasporyazhenie \<or>
          (truthy (rule it) \<and> js_includes (the (rule it)) kw_OrderNumber)))"

text \<open>
  The cards of \<open>renderReport\<close> are HTML templates with holes. The fixed markup is not
  spelled out: a \<open>badge\<close> records which of the three badge templates of lines 505 to 616
  is used and what fills its holes (the hint; or the icon and the location text),
  \<open>NoBadge\<close> is the empty string the variable \<open>locationBadge\<close> starts with.
\<close>

datatype badge =
    NoBadge
  | FIOBadge jsstring
  | OrderBadge jsstring
  | LocationBadge jsstring jsstring

definition locationBadge :: "issue \<Rightarrow> badge" where
  "locationBadge it =
     (if fioFamily it then FIOBadge (getFIOHint (the (message it)) (evidence it))
      else if orderFamily it then
        OrderBadge (replaceNewlines (getOrderNumberHint (the (message it)) (evidence it)) str_br)
      else if truthy (location it) then
        (let loc = the (location it) in
         if loc = tok_title_page then LocationBadge icon_clipboard loc_text_title
         else if loc = tok_document then LocationBadge icon_page loc_text_document
         else if loc = tok_calendar_plan_table then LocationBadge icon_chart loc_text_table
         else if js_includes loc tok_page then
           LocationBadge icon_book
             (loc_text_page_open @ index1 (split 0x3A loc) @ loc_text_page_close)
         else LocationBadge icon_pin loc)
      else NoBadge)"

datatype family = NameFormat | OrderNumber | GenericLocation

definition badgeFamily :: "badge \<Rightarrow> family option" where
  "badgeFamily b = (case b of
       NoBadge \<Rightarrow> None
     | FIOBadge _ \<Rightarrow> Some NameFormat
     | OrderBadge _ \<Rightarrow> Some OrderNumber
     | LocationBadge _ _ \<Rightarrow> Some GenericLocation)"

definition badgeText :: "badge \<Rightarrow> jsstring" where
  "badgeText b = (case b of
       NoBadge \<Rightarrow> []
     | FIOBadge h \<Rightarrow> h
     | OrderBadge h \<Rightarrow> h
     | LocationBadge _ t \<Rightarrow> t)"

text \<open>One card of the issue list (lines 477 to 630; lines 106 to 120 of the reduced copy,
  which has neither evidence nor badge).\<close>

record issueView =
  sevClass :: jsstring
  sevText :: jsstring
  ruleHtml :: "jsstring option"
  messageHtml :: jsstring
  evidenceHint :: "jsstring option"
  badgeOf :: badge
  howHtml :: "jsstring option"

definition issueSev :: "issue \<Rightarrow> jsstring" where
  "issueSev it = toLowerCase (orElse (severity it) sev_info)"

definition renderIssue :: "issue \<Rightarrow> issueView" where
  "renderIssue it =
     (let sev = issueSev it in
      \<lparr>sevClass = dotClass sev,
       sevText = sevLabel sev,
       ruleHtml = (if truthy (rule it) then Some (esc (the (rule it))) else None),
       messageHtml = esc (orElse (message it) str_Narushenie),
       evidenceHint = (if usableEvidence (evidence it) then Some (esc (the (evidence it))) else None),
       badgeOf = locationBadge it,
       howHtml = (if truthy (how_to_fix it) then Some (esc (the (how_to_fix it))) else None)\<rparr>)"

text \<open>
  \<open>Object.entries\<close> lists the keys that are array indices first, in ascending numeric
  order, and the other keys after them in insertion order.
\<close>

definition isDigit :: "nat \<Rightarrow> bool" where
  "isDigit c = (0x30 \<le> c \<and> c \<le> 0x39)"

definition digitsValue :: "jsstring \<Rightarrow> nat" where
  "digitsValue k = foldl (\<lambda>a c. 10 * a + (c - 0x30)) 0 k"

definition isArrayIndex :: "jsstring \<Rightarrow> bool" where
  "isArrayIndex k =
     (k \<noteq> [] \<and> list_all isDigit k \<and> (hd k \<noteq> 0x30 \<or> length k = 1) \<and>
      digitsValue k < 4294967295)"

definition objectEntries :: "(jsstring \<times> 'v) list \<Rightarrow> (jsstring \<times> 'v) list" where
  "objectEntries kvs =
     sort_key (\<lambda>kv. digitsValue (fst kv)) (filter (\<lambda>kv. isArrayIndex (fst kv)) kvs) @
     filter (\<lambda>kv. \<not> isArrayIndex (fst kv)) kvs"

text \<open>
  \<open>getLocationSummary\<close> (lines 297 to 345): \<open>None\<close> is the fixed line saying that the
  errors are spread across the document, otherwise one row of icon, label and count for
  each bucket.
\<close>

definition bucketIcon :: "jsstring \<Rightarrow> jsstring" where
  "bucketIcon loc =
     (if js_includes loc kw_FIO then icon_person
      else if js_includes loc word_Titulnaya then icon_clipboard
      else if js_includes loc word_Stranitsa then icon_book
      else if js_includes loc word_Tablitsa then icon_chart
      else icon_bullet)"

definition getLocationSummary :: "issue list \<Rightarrow> (jsstring \<times> jsstring \<times> nat) list option" where
  "getLocationSummary xs =
     (let counts = locationCounts xs in
      if counts = [] then None
      else Some (map (\<lambda>(loc, n). (bucketIcon loc, loc, n)) (objectEntries counts)))"

text \<open>
  \<open>renderReport\<close> (lines 403 to 703) stores the report in \<open>lastReport\<close> and rebuilds the
  report area, of which \<open>reportView\<close> keeps what is computed.
\<close>

datatype issuesArea =
    NoViolations
  | NothingForFilter jsstring
  | IssueCards "issueView list"

record reportView =
  profileShown :: jsstring
  totalShown :: int
  totalDot :: jsstring
  criticalShown :: int
  warningShown :: int
  infoShown :: int
  activeChips :: "(jsstring \<times> bool) list"
  locationSummary :: "(jsstring \<times> jsstring \<times> nat) list option"
  shownCount :: nat
  issueCount :: nat
  issuesHtml :: issuesArea
  commentsShown :: "comment list"

definition filterLabel :: "jsstring \<Rightarrow> jsstring" where
  "filterLabel flt =
     (if flt = sev_critical then flt_label_critical
      else if flt = sev_warning then flt_label_warning
      else if flt = sev_info then flt_label_info
      else flt_label_all)"

definition renderReport :: "report \<Rightarrow> session \<Rightarrow> reportView \<times> session" where
  "renderReport r st =
     (let s = summaryOrDefault r;
          xs = issuesOf r;
          tot = displayedTotal r;
          flt = currentFilter st;
          shown = filtered flt xs
      in (\<lparr>profileShown = esc (orElse (profile r) str_net),
           totalShown = tot,
           totalDot = (if tot = 0 then cls_ok else sev_critical),
           criticalShown = countOrZero (critical s),
           warningShown = countOrZero (warning s),
           infoShown = countOrZero (info s),
           activeChips = map (\<lambda>c. (c, flt = c)) [flt_all, sev_critical, sev_warning, sev_info],
           locationSummary = getLocationSummary xs,
           shownCount = length shown,
           issueCount = length xs,
           issuesHtml =
             (if xs = [] then NoViolations
              else if shown = [] then NothingForFilter (filterLabel flt)
              else IssueCards (map renderIssue shown)),
           commentsShown = comments st\<rparr>,
          st\<lparr>lastReport := Some r\<rparr>))"

text \<open>The click handler of a filter chip (lines 653 to 658): with no report there is
  nothing to render.\<close>

definition selectFilter :: "jsstring \<Rightarrow> session \<Rightarrow> (reportView \<times> session) option" where
  "selectFilter flt st = (case lastReport st of
       None \<Rightarrow> None
     | Some r \<Rightarrow> Some (renderReport r (st\<lparr>currentFilter := flt\<rparr>)))"

definition resetUI :: "session" where
  "resetUI = \<lparr>chosen = None, lastReport = None, comments = [], currentFilter = flt_all\<rparr>"


section \<open>Report exporter\<close>

text \<open>Numbers in a template literal are printed in decimal.\<close>

function showNat :: "nat \<Rightarrow> jsstring" where
  "showNat n = (if n < 10 then [0x30 + n] else showNat (n div 10) @ [0x30 + n mod 10])"
  by pat_completeness auto
termination
  by (relation "measure id") auto



text \<open>
  \<open>trim\<close> removes the white space and line terminators of ECMAScript from both ends.
\<close>

definition isWhiteSpace :: "nat \<Rightarrow> bool" where
  "isWhiteSpace c =
     (c \<in> set [0x9, 0xA, 0xB, 0xC, 0xD, 0x20, 0xA0, 0x1680, 0x2028, 0x2029, 0x202F, 0x205F,
               0x3000, 0xFEFF] \<or> (0x2000 \<le> c \<and> c \<le> 0x200A))"

definition trim :: "jsstring \<Rightarrow> jsstring" where
  "trim s = rev (dropWhile isWhiteSpace (rev (dropWhile isWhiteSpace s)))"


definition nl :: jsstring where
  "nl = [0xA]"






text \<open>
  The hint of the full-name family in the export (lines 154 to 179), on the lower-cased
  message. The source assigns to \<open>detailedHint\<close> in four successive statements, each of
  which replaces what the earlier ones stored; \<open>h1\<close>, \<open>h2\<close> and \<open>h3\<close> are the values of
  the variable after the first three, and the last statement fills in the fallback when the
  variable is still empty.
\<close>

definition exp_hint_abbrev :: jsstring where
  "exp_hint_abbrev = exp_hint_abbrev_1 @ exp_hint_abbrev_2 @ exp_hint_abbrev_3"

definition exp_hint_case :: jsstring where
  "exp_hint_case = exp_hint_case_1 @ exp_hint_case_2 @ exp_hint_case_3"

definition fioDetailedHint :: "jsstring \<Rightarrow> jsstring" where
  "fioDetailedHint m =
     (let h1 = (if js_includes m kw_ne_naideno then
                  (let a = (if js_includes m kw_obuchayuschegosya \<or> js_includes m kw_student
                            then exp_hint_student else [])
                   in if js_includes m kw_rukovoditelya \<or> js_includes m kw_rukovoditel
                      then exp_hint_supervisor else a)
                else []);
          h2 = (if abbreviationMarker m then exp_hint_abbrev else h1);
          h3 = (if caseMarker m then exp_hint_case else h2)
      in if h3 = [] \<and> nameMarker m then exp_hint_fallback else h3)"

text \<open>The location line of the export (lines 182 to 196); an unknown token gives none.\<close>

definition locDetailedHint :: "jsstring \<Rightarrow> jsstring" where
  "locDetailedHint loc =
     (if loc = tok_title_page then exp_loc_title
      else if loc = tok_calendar_plan_table then exp_loc_table
      else if js_includes loc tok_page then exp_loc_page @ index1 (split 0x3A loc) @ nl
      else if loc = tok_document then exp_loc_document
      else [])"

definition familyHint :: "issue \<Rightarrow> jsstring" where
  "familyHint it =
     (if fioFamily it then fioDetailedHint (toLowerCase (the (message it)))
      else if truthy (location it) then locDetailedHint (the (location it))
      else [])"

text \<open>\<open>detailedHint\<close> is the variable of that name at line 213, the hint block of an issue.\<close>

definition detailedHint :: "issue \<Rightarrow> jsstring" where
  "detailedHint it =
     familyHint it @
     (if usableEvidence (evidence it) then exp_context @ the (evidence it) @ nl else []) @
     (if truthy (how_to_fix it) then exp_how @ the (how_to_fix it) @ nl else []) @
     (if truthy (rule it) then exp_rule @ the (rule it) @ nl else [])"










section \<open>Order number validator\<close>

record validation =
  isValid :: bool
  errors :: "issue list"
  warnings :: "issue list"

definition synthetic :: "jsstring \<Rightarrow> jsstring \<Rightarrow> jsstring \<Rightarrow> jsstring \<Rightarrow> issue" where
  "synthetic sev msg how r =
     \<lparr>message = Some msg, severity = Some sev, location = None, rule = Some r,
      evidence = None, how_to_fix = Some how\<rparr>"

text \<open>
  \<open>formatRegex\<close> (line 841) is anchored at both ends: one or more characters of the class
  (Cyrillic and Latin letters, digits, hyphen, slash, period, white space), then a slash and
  a group of two to four digits, then optionally a hyphen or slash and another such group.
  The test succeeds when the string can be cut in this way.
\<close>

definition isFormatChar :: "nat \<Rightarrow> bool" where
  "isFormatChar c =
     ((0x430 \<le> c \<and> c \<le> 0x44F) \<or> (0x410 \<le> c \<and> c \<le> 0x42F) \<or>
      (0x61 \<le> c \<and> c \<le> 0x7A) \<or> (0x41 \<le> c \<and> c \<le> 0x5A) \<or> isDigit c \<or>
      c = 0x2D \<or> c = 0x2F \<or> c = 0x2E \<or> isWhiteSpace c)"

definition yearGroup :: "jsstring \<Rightarrow> bool" where
  "yearGroup t = (2 \<le> length t \<and> length t \<le> 4 \<and> list_all isDigit t)"

definition formatTail :: "jsstring \<Rightarrow> bool" where
  "formatTail t = (case t of
       [] \<Rightarrow> False
     | c # u \<Rightarrow> c = 0x2F \<and>
         (yearGroup u \<or>
          list_ex (\<lambda>n. yearGroup (take n u) \<and>
                     (case drop n u of
                        [] \<Rightarrow> False
                      | d # v \<Rightarrow> (d = 0x2D \<or> d = 0x2F) \<and> yearGroup v))
                  [2, 3, 4]))"

definition formatRegex_test :: "jsstring \<Rightarrow> bool" where
  "formatRegex_test s =
     list_ex (\<lambda>i. list_all isFormatChar (take i s) \<and> formatTail (drop i s))
             [1..<Suc (length s)]"

text \<open>\<open>invalidCharRegex\<close> (line 852): the string has one of the listed characters.\<close>

definition invalidCharRegex_test :: "jsstring \<Rightarrow> bool" where
  "invalidCharRegex_test s = list_ex (\<lambda>c. c \<in> set val_invalid_chars) s"

definition validateOrderNumber :: "jsstring \<Rightarrow> validation" where
  "validateOrderNumber orderNumber =
     (if orderNumber = [] \<or> trim orderNumber = [] then
        \<lparr>isValid = True, errors = [],
         warnings = [synthetic sev_warning val_missing_message val_missing_how val_missing_rule]\<rparr>
      else
        (let trimmed = trim orderNumber;
             e1 = (if length trimmed < 3
                   then [synthetic sev_critical val_short_message val_short_how val_short_rule]
                   else []);
             w = (if \<not> formatRegex_test trimmed
                  then [synthetic sev_warning val_format_message val_format_how val_format_rule]
                  else []);
             e2 = (if invalidCharRegex_test trimmed
                   then [synthetic sev_critical val_chars_message val_chars_how val_chars_rule]
                   else []);
             es = e1 @ e2
         in \<lparr>isValid = (length es = 0), errors = es, warnings = w\<rparr>))"


section \<open>Concrete inputs\<close>

text \<open>The properties below are evaluated on these issues, reports and sessions.\<close>

definition ex_issue_fio :: issue where
  "ex_issue_fio =
     \<lparr>message = Some ex_fio_studenta_ne_naideno, severity = Some sev_critical,
      location = Some tok_title_page, rule = None, evidence = None, how_to_fix = None\<rparr>"


definition ex_issue_bare :: issue where
  "ex_issue_bare =
     \<lparr>message = Some ex_nevernyi_shrift, severity = Some sev_warning,
      location = None, rule = None, evidence = None, how_to_fix = None\<rparr>"

definition ex_issue_documented :: issue where
  "ex_issue_documented =
     \<lparr>message = Some ex_nevernyi_shrift, severity = Some sev_warning,
      location = Some tok_document, rule = Some (ascii ''FontSize''),
      evidence = Some (ascii ''Arial 12''), how_to_fix = Some (ascii ''Times New Roman 14'')\<rparr>"

definition ex_issue_upper :: issue where
  "ex_issue_upper =
     \<lparr>message = Some ex_Familiya_neverno, severity = Some sev_warning,
      location = Some tok_title_page, rule = None, evidence = None, how_to_fix = None\<rparr>"

definition ex_issue_lower :: issue where
  "ex_issue_lower =
     \<lparr>message = Some ex_familiya_neverno, severity = Some sev_warning,
      location = Some tok_title_page, rule = None, evidence = None, how_to_fix = None\<rparr>"

definition ex_issue_multi :: issue where
  "ex_issue_multi =
     \<lparr>message = Some ex_fio_student_padezh, severity = Some sev_critical,
      location = Some tok_title_page, rule = None, evidence = None, how_to_fix = None\<rparr>"

definition ex_issue_no_severity :: issue where
  "ex_issue_no_severity =
     \<lparr>message = Some ex_nevernyi_shrift, severity = None,
      location = Some tok_document, rule = None, evidence = None, how_to_fix = None\<rparr>"

definition ex_report_no_summary :: report where
  "ex_report_no_summary = \<lparr>profile = None, summary = None, issues = Some [ex_issue_bare]\<rparr>"

definition ex_report_empty :: report where
  "ex_report_empty =
     \<lparr>profile = None,
      summary = Some \<lparr>critical = Some 0, warning = Some 0, info = Some 0, total = Some 0\<rparr>,
      issues = Some []\<rparr>"

definition ex_session_empty :: session where
  "ex_session_empty =
     \<lparr>chosen = Some ex_file, lastReport = Some ex_report_empty, comments = [],
      currentFilter = flt_all\<rparr>"


text \<open>
  The allowed characters of an order number in the words of the specification: letters,
  digits, space, period, hyphen and slash; the letters are those of the two alphabets of
  \<open>formatRegex\<close>.
\<close>

definition specAllowedChar :: "nat \<Rightarrow> bool" where
  "specAllowedChar c =
     ((0x430 \<le> c \<and> c \<le> 0x44F) \<or> (0x410 \<le> c \<and> c \<le> 0x42F) \<or>
      (0x61 \<le> c \<and> c \<le> 0x7A) \<or> (0x41 \<le> c \<and> c \<le> 0x5A) \<or> isDigit c \<or>
      c = 0x20 \<or> c = 0x2E \<or> c = 0x2D \<or> c = 0x2F)"


section \<open>Evaluation\<close>

text \<open>
  The literals are unfolded only where a property is evaluated at a concrete input; these
  collections name the larger groups of them.
\<close>

lemmas keyword_defs =
  kw_FIO_def kw_fio_def kw_Familiya_def kw_student_def kw_rukovoditel_def kw_padezh_def
  kw_sokrascheni_def kw_ne_naideno_def kw_obuchayuschegosya_def kw_rukovoditelya_def
  kw_sokrascheniya_def kw_io_def kw_i_o_def kw_padezhe_def kw_familiya_def
  kw_nomer_prikaza_def kw_prikaz_def kw_rasporyazhenie_def kw_OrderNumber_def
  kw_ne_naiden_nomer_def kw_nestandartnyi_format_def kw_nedopustimye_simvoly_def
  kw_slishkom_korotkii_def tok_title_page_def tok_page_def tok_calendar_plan_table_def
  tok_document_def

lemmas screen_defs =
  fio_hint_student_def fio_hint_supervisor_def fio_hint_abbrev_def fio_hint_case_def
  fio_hint_search_open_def fio_hint_search_close_def fio_hint_check_all_def
  fio_hint_generic_def order_hint_not_found_def order_hint_format_def order_hint_chars_def
  order_hint_short_def order_hint_generic_def loc_text_title_def loc_text_document_def
  loc_text_table_def loc_text_page_open_def loc_text_page_close_def icon_pin_def
  icon_clipboard_def icon_page_def icon_chart_def icon_book_def icon_bullet_def
  icon_person_def str_br_def str_net_def flt_label_critical_def flt_label_warning_def
  flt_label_info_def flt_label_all_def word_Titulnaya_def word_Stranitsa_def
  word_Tablitsa_def

lemmas export_defs =
  exp_title_def exp_date_def exp_profile_def exp_unspecified_def exp_file_def
  exp_order_number_def exp_summary_def exp_total_def exp_critical_def exp_warning_def
  exp_info_def exp_distribution_def exp_bullet_def exp_errors_def exp_spread_def
  exp_detailed_def exp_hint_student_def exp_hint_supervisor_def exp_hint_abbrev_1_def
  exp_hint_abbrev_2_def exp_hint_abbrev_3_def exp_hint_case_1_def exp_hint_case_2_def
  exp_hint_case_3_def exp_hint_fallback_def exp_loc_title_def exp_loc_table_def
  exp_loc_page_def exp_loc_document_def exp_context_def exp_how_def exp_rule_def
  exp_comments_def exp_comment_def exp_checklist_def exp_checkbox_def exp_instruction_def
  exp_step_1_def exp_step_2_def exp_step_3_def exp_step_4_def exp_step_5_def

lemmas lower_defs = toLowerCase_def lowerUnit_def

section \<open>Properties of the string primitives\<close>

lemma includes_sublist: "js_includes s k = sublist k s"
  by (induction s) (auto simp: sublist_Cons_right)

lemma includes_unit_in_set: "js_includes s k \<Longrightarrow> c \<in> set k \<Longrightarrow> c \<in> set s"
  unfolding includes_sublist by (auto dest: set_mono_sublist)

section \<open>Properties of the location distribution\<close>









section \<open>Properties of the filter\<close>

lemma toLowerCase_Nil: "toLowerCase [] = []"
  by (simp add: toLowerCase_def)

lemma toLowerCase_severities:
  "toLowerCase sev_critical = sev_critical"
  "toLowerCase sev_warning = sev_warning"
  "toLowerCase sev_info = sev_info"
  by (simp_all add: toLowerCase_def lowerUnit_def sev_critical_def sev_warning_def sev_info_def ascii_def)

lemma severities_distinct:
  "sev_critical \<noteq> []" "sev_warning \<noteq> []" "sev_info \<noteq> []"
  "flt_all \<noteq> sev_critical" "flt_all \<noteq> sev_warning" "flt_all \<noteq> sev_info"
  "sev_critical \<noteq> sev_warning" "sev_critical \<noteq> sev_info" "sev_warning \<noteq> sev_info"
  by (simp_all add: flt_all_def sev_critical_def sev_warning_def sev_info_def ascii_def)

lemma filtered_all: "filtered flt_all xs = xs"
  by (simp add: filtered_def)

lemma filtered_idem: "filtered flt (filtered flt xs) = filtered flt xs"
  by (simp add: filtered_def)

lemma filtered_subseq: "subseq (filtered flt xs) xs"
  by (simp add: filtered_def)

lemma lower_severity_eq:
  assumes "sev \<in> {None, Some sev_critical, Some sev_warning, Some sev_info}"
    and "flt \<in> {sev_critical, sev_warning, sev_info}"
  shows "toLowerCase (orElse sev []) = flt \<longleftrightarrow> sev = Some flt"
  using assms severities_distinct
  by (auto simp: orElse_def toLowerCase_Nil toLowerCase_severities)

text \<open>
  C4. For issues whose severity is one of the three values of the data model (or absent)
  and a filter state naming one of them, the derived view is exactly the issues whose
  severity equals the state; under \<open>all\<close> it is the whole sequence; filtering twice is
  filtering once; the view keeps the original order; and rendering changes nothing of the
  session but \<open>lastReport\<close>, which holds the report as it was passed.
\<close>

theorem filtered_view:
  assumes "\<forall>it\<in>set xs. severity it \<in> {None, Some sev_critical, Some sev_warning, Some sev_info}"
    and "flt \<in> {sev_critical, sev_warning, sev_info}"
  shows "filtered flt xs = filter (\<lambda>it. severity it = Some flt) xs \<and>
         filtered flt_all xs = xs \<and>
         filtered flt (filtered flt xs) = filtered flt xs \<and>
         filtered flt_all (filtered flt_all xs) = filtered flt_all xs \<and>
         subseq (filtered flt xs) xs \<and>
         snd (renderReport r st) = st\<lparr>lastReport := Some r\<rparr> \<and>
         shownCount (fst (renderReport r st)) = length (filtered (currentFilter st) (issuesOf r))"
proof -
  have ne: "flt \<noteq> flt_all" using assms(2) severities_distinct by auto
  have view: "filtered flt xs = filter (\<lambda>it. severity it = Some flt) xs"
    unfolding filtered_def using assms(1) lower_severity_eq [OF _ assms(2)] ne
    by (intro filter_cong) auto
  have session: "snd (renderReport r st) = st\<lparr>lastReport := Some r\<rparr>"
    by (simp add: renderReport_def Let_def)
  have shown: "shownCount (fst (renderReport r st)) =
      length (filtered (currentFilter st) (issuesOf r))"
    by (simp add: renderReport_def Let_def)
  show ?thesis
    using view session shown filtered_all [of xs] filtered_idem [of flt xs]
      filtered_idem [of flt_all xs] filtered_subseq [of flt xs]
    by blast
qed

text \<open>Witness for C4: three issues, critical, warning and without severity.\<close>

theorem filtered_view_witness:
  "severity ex_issue_fio = Some sev_critical \<and>
   severity ex_issue_bare = Some sev_warning \<and>
   severity ex_issue_no_severity = None \<and>
   sev_warning \<in> {sev_critical, sev_warning, sev_info} \<and>
   filtered sev_warning [ex_issue_fio, ex_issue_bare, ex_issue_no_severity] = [ex_issue_bare] \<and>
   filtered flt_all [ex_issue_fio, ex_issue_bare, ex_issue_no_severity] =
     [ex_issue_fio, ex_issue_bare, ex_issue_no_severity]"
proof -
  have sev: "severity ex_issue_fio = Some sev_critical"
    "severity ex_issue_bare = Some sev_warning" "severity ex_issue_no_severity = None"
    by (simp_all add: ex_issue_fio_def ex_issue_bare_def ex_issue_no_severity_def)
  have h1: "\<forall>it\<in>set [ex_issue_fio, ex_issue_bare, ex_issue_no_severity].
      severity it \<in> {None, Some sev_critical, Some sev_warning, Some sev_info}"
    using sev by simp
  have h2: "sev_warning \<in> {sev_critical, sev_warning, sev_info}" by simp
  show ?thesis
    using sev h2 severities_distinct filtered_view [OF h1 h2, where r = ex_report_empty and st = ex_session_empty] by simp
qed

section \<open>The displayed total\<close>

lemma displayedTotal_summary_without_total:
  "summary r = Some s \<Longrightarrow> total s = None \<Longrightarrow> displayedTotal r = int (length (issuesOf r))"
  by (simp add: displayedTotal_def summaryOrDefault_def)

text \<open>
  C5, evaluated where the code departs from it: a report without a summary object and with
  one issue is displayed with a total of 0, while its issue list has length 1.
\<close>

theorem absent_summary_total:
  "summary ex_report_no_summary = None \<and>
   length (issuesOf ex_report_no_summary) = 1 \<and>
   displayedTotal ex_report_no_summary = 0 \<and>
   totalShown (fst (renderReport ex_report_no_summary resetUI)) = 0 \<and>
   issueCount (fst (renderReport ex_report_no_summary resetUI)) = 1"
  by (simp add: ex_report_no_summary_def issuesOf_def displayedTotal_def summaryOrDefault_def
      renderReport_def Let_def)

section \<open>Issues without a severity\<close>

text \<open>
  C10. An issue without a severity is in the view of the state \<open>all\<close>, in none of the views
  of the states critical, warning and info, and its card carries the label and the class of
  the info severity.
\<close>

theorem absent_severity:
  assumes "severity it = None" and "it \<in> set xs"
  shows "it \<in> set (filtered flt_all xs) \<and>
         it \<notin> set (filtered sev_critical xs) \<and>
         it \<notin> set (filtered sev_warning xs) \<and>
         it \<notin> set (filtered sev_info xs) \<and>
         sevText (renderIssue it) = lbl_Informatsiya \<and>
         sevClass (renderIssue it) = sev_info"
proof -
  have low: "toLowerCase (orElse (severity it) []) = []"
    using assms(1) by (simp add: orElse_def toLowerCase_Nil)
  have sev: "issueSev it = sev_info"
    using assms(1) severities_distinct(3)
    by (simp add: issueSev_def orElse_def toLowerCase_severities)
  have lbl: "sevLabel sev_info = lbl_Informatsiya" "dotClass sev_info = sev_info"
    using severities_distinct by (auto simp: sevLabel_def dotClass_def)
  show ?thesis
    using assms(2) low sev lbl severities_distinct
    by (auto simp: filtered_def renderIssue_def Let_def)
qed

text \<open>Witness for C10.\<close>

theorem absent_severity_witness:
  "severity ex_issue_no_severity = None \<and>
   ex_issue_no_severity \<in> set [ex_issue_fio, ex_issue_no_severity] \<and>
   filtered sev_info [ex_issue_fio, ex_issue_no_severity] = [] \<and>
   filtered sev_critical [ex_issue_fio, ex_issue_no_severity] = [ex_issue_fio] \<and>
   filtered flt_all [ex_issue_fio, ex_issue_no_severity] = [ex_issue_fio, ex_issue_no_severity] \<and>
   sevText (renderIssue ex_issue_no_severity) = lbl_Informatsiya"
proof -
  have h1: "severity ex_issue_no_severity = None" by (simp add: ex_issue_no_severity_def)
  have h2: "ex_issue_no_severity \<in> set [ex_issue_fio, ex_issue_no_severity]" by simp
  have f: "filtered sev_info [ex_issue_fio, ex_issue_no_severity] = []"
    "filtered sev_critical [ex_issue_fio, ex_issue_no_severity] = [ex_issue_fio]"
    "filtered flt_all [ex_issue_fio, ex_issue_no_severity] = [ex_issue_fio, ex_issue_no_severity]"
    using severities_distinct
    by (simp_all add: filtered_def ex_issue_fio_def ex_issue_no_severity_def orElse_def
        toLowerCase_Nil toLowerCase_severities)
  show ?thesis using h1 h2 f absent_severity [OF h1 h2] by simp
qed

section \<open>Properties of the order number validator\<close>

lemma dropWhile_all_Nil: "(\<forall>x\<in>set (dropWhile P s). P x) \<longleftrightarrow> dropWhile P s = []"
proof
  assume all: "\<forall>x\<in>set (dropWhile P s). P x"
  show "dropWhile P s = []"
  proof (rule ccontr)
    assume ne: "dropWhile P s \<noteq> []"
    then have "\<not> P (hd (dropWhile P s))" by (rule hd_dropWhile)
    moreover have "hd (dropWhile P s) \<in> set (dropWhile P s)" using ne by simp
    ultimately show False using all by blast
  qed
next
  assume "dropWhile P s = []"
  then show "\<forall>x\<in>set (dropWhile P s). P x" by (simp only: list.set ball_empty)
qed

lemma trim_Nil_iff: "trim s = [] \<longleftrightarrow> list_all isWhiteSpace s"
proof -
  have "trim s = [] \<longleftrightarrow> (\<forall>x\<in>set (dropWhile isWhiteSpace s). isWhiteSpace x)"
    by (simp add: trim_def)
  also have "\<dots> \<longleftrightarrow> dropWhile isWhiteSpace s = []" by (rule dropWhile_all_Nil)
  also have "\<dots> \<longleftrightarrow> list_all isWhiteSpace s" by (simp add: list_all_iff)
  finally show ?thesis .
qed

lemma trim_blank: "list_all isWhiteSpace s \<Longrightarrow> trim s = []"
  by (simp add: trim_Nil_iff)

text \<open>
  C9. An input that is empty or made of white space only is valid, with no error and with
  the single warning that the order number is missing; and for every input the result is
  valid exactly when its list of errors is empty, whatever the warnings.
\<close>

theorem blank_order_number:
  "(list_all isWhiteSpace s \<longrightarrow>
      validateOrderNumber s =
        \<lparr>isValid = True, errors = [],
         warnings = [synthetic sev_warning val_missing_message val_missing_how val_missing_rule]\<rparr>) \<and>
   (isValid (validateOrderNumber s) \<longleftrightarrow> errors (validateOrderNumber s) = [])"
  by (simp add: validateOrderNumber_def trim_blank Let_def)

text \<open>Witness for C9: three spaces, and the empty string.\<close>

theorem blank_order_number_witness:
  "list_all isWhiteSpace ex_blank \<and> list_all isWhiteSpace [] \<and>
   isValid (validateOrderNumber ex_blank) \<and> errors (validateOrderNumber ex_blank) = [] \<and>
   length (warnings (validateOrderNumber ex_blank)) = 1 \<and>
   map rule (warnings (validateOrderNumber [])) = [Some val_missing_rule]"
proof -
  have h1: "list_all isWhiteSpace ex_blank" by (simp add: ex_blank_def ascii_def isWhiteSpace_def)
  have h2: "list_all isWhiteSpace []" by simp
  show ?thesis
    using h1 blank_order_number [of ex_blank] blank_order_number [of "[]"]
    by (simp add: synthetic_def)
qed

lemma synthetic_messages_distinct: "val_short_message \<noteq> val_chars_message"
  by (simp add: val_short_message_def val_chars_message_def)

text \<open>
  C3 (as amended). The validator reports the critical error of invalid characters exactly
  when the trimmed input contains one of the characters listed in \<open>invalidCharRegex\<close>;
  other characters outside letters, digits, space, period, hyphen and slash do not raise it.
\<close>

theorem invalid_chars_error_iff:
  "synthetic sev_critical val_chars_message val_chars_how val_chars_rule
     \<in> set (errors (validateOrderNumber s)) \<longleftrightarrow>
   (\<exists>c\<in>set (trim s). c \<in> set val_invalid_chars)"
proof (cases "s = [] \<or> trim s = []")
  case True
  then have "trim s = []" by (auto simp: trim_def)
  then show ?thesis by (simp add: validateOrderNumber_def)
next
  case False
  then show ?thesis
    using synthetic_messages_distinct
    by (auto simp: validateOrderNumber_def Let_def invalidCharRegex_test_def list_ex_iff
        synthetic_def)
qed

text \<open>Witness for C3: the input \<open>12#34/2024\<close> of the specification.\<close>

lemma trim_hash: "trim ex_hash_number = ex_hash_number"
  by (simp add: trim_def isWhiteSpace_def ex_hash_number_def ascii_def)

theorem invalid_chars_error_iff_witness:
  "0x23 \<in> set (trim ex_hash_number) \<and> 0x23 \<in> set val_invalid_chars \<and>
   synthetic sev_critical val_chars_message val_chars_how val_chars_rule
     \<in> set (errors (validateOrderNumber ex_hash_number))"
proof -
  have h1: "0x23 \<in> set (trim ex_hash_number)"
    unfolding trim_hash by (simp add: ex_hash_number_def ascii_def)
  have h2: "0x23 \<in> set val_invalid_chars" by (simp add: val_invalid_chars_def)
  show ?thesis using h1 h2 invalid_chars_error_iff [of ex_hash_number] by blast
qed

lemma trim_comma: "trim ex_comma_number = ex_comma_number"
  by (simp add: trim_def isWhiteSpace_def ex_comma_number_def ascii_def)

text \<open>
  Counterexample to C3 as stated: the comma is outside the allowed set of the claim, and
  \<open>12,34/2024\<close> is validated without any error.
\<close>

theorem comma_order_number_counterexample:
  "0x2C \<in> set (trim ex_comma_number) \<and> \<not> specAllowedChar 0x2C \<and>
   errors (validateOrderNumber ex_comma_number) = [] \<and>
   isValid (validateOrderNumber ex_comma_number)"
proof -
  have a: "0x2C \<in> set (trim ex_comma_number)"
    unfolding trim_comma by (simp add: ex_comma_number_def ascii_def)
  have b: "\<not> specAllowedChar 0x2C" by (simp add: specAllowedChar_def isDigit_def)
  have c: "\<not> invalidCharRegex_test ex_comma_number"
    by (simp add: invalidCharRegex_test_def ex_comma_number_def ascii_def val_invalid_chars_def)
  have d: "ex_comma_number \<noteq> []" "length ex_comma_number = 10"
    by (simp_all add: ex_comma_number_def ascii_def)
  have "errors (validateOrderNumber ex_comma_number) = []"
    using c d by (simp add: validateOrderNumber_def trim_comma Let_def)
  moreover have "isValid (validateOrderNumber ex_comma_number)"
    using c d by (simp add: validateOrderNumber_def trim_comma Let_def)
  ultimately show ?thesis using a b by simp
qed

section \<open>Properties of the hint generators\<close>

lemma screen_hints_nonempty:
  "fio_hint_student \<noteq> []" "fio_hint_supervisor \<noteq> []" "fio_hint_abbrev \<noteq> []"
  "fio_hint_case \<noteq> []" "fio_hint_search_open \<noteq> []" "fio_hint_check_all \<noteq> []"
  "fio_hint_generic \<noteq> []" "order_hint_not_found \<noteq> []" "order_hint_format \<noteq> []"
  "order_hint_chars \<noteq> []" "order_hint_short \<noteq> []" "order_hint_generic \<noteq> []"
  "loc_text_title \<noteq> []" "loc_text_document \<noteq> []" "loc_text_table \<noteq> []"
  "loc_text_page_open \<noteq> []" "str_br \<noteq> []"
  by (simp_all add: screen_defs ascii_def)

lemma export_hints_nonempty:
  "exp_hint_student \<noteq> []" "exp_hint_supervisor \<noteq> []" "exp_hint_abbrev \<noteq> []"
  "exp_hint_case \<noteq> []" "exp_hint_fallback \<noteq> []" "exp_loc_title \<noteq> []"
  "exp_loc_table \<noteq> []" "exp_loc_page \<noteq> []" "exp_loc_document \<noteq> []"
  "exp_context \<noteq> []" "exp_how \<noteq> []" "exp_rule \<noteq> []"
  by (simp_all add: export_defs exp_hint_abbrev_def exp_hint_case_def)

lemma getFIOHint_nonempty: "getFIOHint msg ev \<noteq> []"
  by (simp add: getFIOHint_def Let_def screen_hints_nonempty)

lemma getOrderNumberHint_nonempty: "getOrderNumberHint msg ev \<noteq> []"
  by (simp add: getOrderNumberHint_def Let_def screen_hints_nonempty)

lemma replaceNewlines_nonempty: "s \<noteq> [] \<Longrightarrow> r \<noteq> [] \<Longrightarrow> replaceNewlines s r \<noteq> []"
  by (cases s) (simp_all add: replaceNewlines_def)

lemma truthy_the: "truthy x \<Longrightarrow> the x \<noteq> []"
  by (cases x) (simp_all add: truthy_def)

lemma badgeText_nonempty_iff:
  "badgeText (locationBadge it) \<noteq> [] \<longleftrightarrow> fioFamily it \<or> orderFamily it \<or> truthy (location it)"
  by (simp add: locationBadge_def badgeText_def Let_def getFIOHint_nonempty
      getOrderNumberHint_nonempty replaceNewlines_nonempty screen_hints_nonempty truthy_the)

lemma locationBadge_NoBadge_iff:
  "locationBadge it = NoBadge \<longleftrightarrow> \<not> fioFamily it \<and> \<not> orderFamily it \<and> \<not> truthy (location it)"
  by (simp add: locationBadge_def Let_def)

lemma badgeFamily_locationBadge:
  "badgeFamily (locationBadge it) =
     (if fioFamily it then Some NameFormat
      else if orderFamily it then Some OrderNumber
      else if truthy (location it) then Some GenericLocation
      else None)"
  by (simp add: locationBadge_def badgeFamily_def Let_def)

lemma fioDetailedHint_priority:
  "fioDetailedHint m =
     (if caseMarker m then exp_hint_case
      else if abbreviationMarker m then exp_hint_abbrev
      else if notFoundSupervisor m then exp_hint_supervisor
      else if notFoundStudent m then exp_hint_student
      else if nameMarker m then exp_hint_fallback
      else [])"
  by (auto simp: fioDetailedHint_def Let_def notFoundStudent_def notFoundSupervisor_def
      export_hints_nonempty)

lemma fioDetailedHint_nonempty_iff:
  "fioDetailedHint m \<noteq> [] \<longleftrightarrow>
     notFoundStudent m \<or> notFoundSupervisor m \<or> abbreviationMarker m \<or> caseMarker m \<or>
     nameMarker m"
  by (simp add: fioDetailedHint_priority export_hints_nonempty)

lemma locDetailedHint_nonempty_iff:
  "locDetailedHint loc \<noteq> [] \<longleftrightarrow>
     loc = tok_title_page \<or> loc = tok_calendar_plan_table \<or> js_includes loc tok_page \<or>
     loc = tok_document"
  by (simp add: locDetailedHint_def export_hints_nonempty)

lemma familyHint_nonempty_iff:
  "familyHint it \<noteq> [] \<longleftrightarrow>
     (fioFamily it \<and>
        (notFoundStudent (toLowerCase (the (message it))) \<or>
         notFoundSupervisor (toLowerCase (the (message it))) \<or>
         abbreviationMarker (toLowerCase (the (message it))) \<or>
         caseMarker (toLowerCase (the (message it))) \<or>
         nameMarker (toLowerCase (the (message it))))) \<or>
     (\<not> fioFamily it \<and> truthy (location it) \<and>
        (the (location it) = tok_title_page \<or> the (location it) = tok_calendar_plan_table \<or>
         js_includes (the (location it)) tok_page \<or> the (location it) = tok_document))"
  by (simp add: familyHint_def fioDetailedHint_nonempty_iff locDetailedHint_nonempty_iff)

lemma detailedHint_nonempty_iff:
  "detailedHint it \<noteq> [] \<longleftrightarrow>
     familyHint it \<noteq> [] \<or> usableEvidence (evidence it) \<or> truthy (how_to_fix it) \<or>
     truthy (rule it)"
  by (simp add: detailedHint_def export_hints_nonempty)

text \<open>
  C2 (as amended). A hint block is computed for every issue, but it can be empty. In the
  export it is non-empty whenever a sub-rule of the full-name family fires, whenever the
  issue is outside that family and carries one of the four known location tokens, and
  whenever usable evidence, a fix instruction or a rule identifier is present. On the screen
  the badge carries text whenever one of the three families matches, and usable evidence
  gives an evidence block. An issue with no family keyword, no location, no usable
  evidence, no fix instruction and no rule gets an empty hint block in the export and
  neither badge nor evidence block on the screen: no generic message is substituted.
\<close>

theorem hint_block_nonempty:
  "(fioFamily it \<and>
      (notFoundStudent (toLowerCase (the (message it))) \<or>
       notFoundSupervisor (toLowerCase (the (message it))) \<or>
       abbreviationMarker (toLowerCase (the (message it))) \<or>
       caseMarker (toLowerCase (the (message it))) \<or>
       nameMarker (toLowerCase (the (message it)))) \<longrightarrow> detailedHint it \<noteq> []) \<and>
   (\<not> fioFamily it \<and> truthy (location it) \<and>
      (the (location it) = tok_title_page \<or> the (location it) = tok_calendar_plan_table \<or>
       js_includes (the (location it)) tok_page \<or> the (location it) = tok_document)
      \<longrightarrow> detailedHint it \<noteq> []) \<and>
   (usableEvidence (evidence it) \<or> truthy (how_to_fix it) \<or> truthy (rule it)
      \<longrightarrow> detailedHint it \<noteq> []) \<and>
   (fioFamily it \<or> orderFamily it \<or> truthy (location it)
      \<longrightarrow> badgeText (badgeOf (renderIssue it)) \<noteq> []) \<and>
   (usableEvidence (evidence it) \<longrightarrow> evidenceHint (renderIssue it) \<noteq> None) \<and>
   (\<not> fioFamily it \<and> \<not> orderFamily it \<and> \<not> truthy (location it) \<and>
    \<not> usableEvidence (evidence it) \<and> \<not> truthy (how_to_fix it) \<and> \<not> truthy (rule it)
      \<longrightarrow> detailedHint it = [] \<and> badgeOf (renderIssue it) = NoBadge \<and>
          evidenceHint (renderIssue it) = None)"
proof -
  have badge: "badgeOf (renderIssue it) = locationBadge it"
    by (simp add: renderIssue_def Let_def)
  have ev: "evidenceHint (renderIssue it) = None \<longleftrightarrow> \<not> usableEvidence (evidence it)"
    by (simp add: renderIssue_def Let_def)
  show ?thesis
    using detailedHint_nonempty_iff [of it] familyHint_nonempty_iff [of it]
      badgeText_nonempty_iff [of it] locationBadge_NoBadge_iff [of it]
    unfolding badge ev by blast
qed

text \<open>
  Witness for C2: the issue of the specification's scenario, an issue with a known
  location, evidence, fix instruction and rule, and an issue with none of them.
\<close>

lemma lower_fio_studenta:
  "toLowerCase ex_fio_studenta_ne_naideno =
     [0x444, 0x438, 0x43E, 0x20, 0x441, 0x442, 0x443, 0x434, 0x435, 0x43D, 0x442, 0x430,
      0x20, 0x43D, 0x435, 0x20, 0x43D, 0x430, 0x439, 0x434, 0x435, 0x43D, 0x43E]"
  by (simp add: lower_defs ex_fio_studenta_ne_naideno_def)

lemma ex_issue_fio_facts:
  "fioFamily ex_issue_fio"
  "notFoundStudent (toLowerCase (the (message ex_issue_fio)))"
  by (simp_all add: fioFamily_def ex_issue_fio_def lower_fio_studenta notFoundStudent_def
      keyword_defs, simp_all add: ex_fio_studenta_ne_naideno_def)

lemma ex_issue_bare_facts:
  "\<not> fioFamily ex_issue_bare" "\<not> orderFamily ex_issue_bare"
  "\<not> truthy (location ex_issue_bare)" "\<not> usableEvidence (evidence ex_issue_bare)"
  "\<not> truthy (how_to_fix ex_issue_bare)" "\<not> truthy (rule ex_issue_bare)"
  by (simp_all add: fioFamily_def orderFamily_def truthy_def usableEvidence_def
      ex_issue_bare_def ex_nevernyi_shrift_def keyword_defs)

lemma ex_issue_documented_facts:
  "\<not> fioFamily ex_issue_documented" "truthy (location ex_issue_documented)"
  "the (location ex_issue_documented) = tok_document"
  "usableEvidence (evidence ex_issue_documented)"
  "truthy (how_to_fix ex_issue_documented)" "truthy (rule ex_issue_documented)"
  by (simp_all add: fioFamily_def truthy_def usableEvidence_def ex_issue_documented_def
      ex_nevernyi_shrift_def keyword_defs str_emdash_def str_hyphen_def ascii_def)

theorem hint_block_nonempty_witness:
  "fioFamily ex_issue_fio \<and>
   notFoundStudent (toLowerCase (the (message ex_issue_fio))) \<and>
   detailedHint ex_issue_fio \<noteq> [] \<and>
   badgeText (badgeOf (renderIssue ex_issue_fio)) \<noteq> [] \<and>
   \<not> fioFamily ex_issue_documented \<and> truthy (location ex_issue_documented) \<and>
   the (location ex_issue_documented) = tok_document \<and>
   usableEvidence (evidence ex_issue_documented) \<and>
   detailedHint ex_issue_documented \<noteq> [] \<and>
   evidenceHint (renderIssue ex_issue_documented) \<noteq> None \<and>
   \<not> fioFamily ex_issue_bare \<and> \<not> orderFamily ex_issue_bare \<and>
   \<not> truthy (location ex_issue_bare) \<and> \<not> usableEvidence (evidence ex_issue_bare) \<and>
   \<not> truthy (how_to_fix ex_issue_bare) \<and> \<not> truthy (rule ex_issue_bare) \<and>
   detailedHint ex_issue_bare = [] \<and> badgeOf (renderIssue ex_issue_bare) = NoBadge"
proof -
  have fio: "detailedHint ex_issue_fio \<noteq> []"
    "badgeText (badgeOf (renderIssue ex_issue_fio)) \<noteq> []"
    using ex_issue_fio_facts hint_block_nonempty [of ex_issue_fio] by simp_all
  have documented: "detailedHint ex_issue_documented \<noteq> []"
    "evidenceHint (renderIssue ex_issue_documented) \<noteq> None"
    using ex_issue_documented_facts hint_block_nonempty [of ex_issue_documented] by simp_all
  have bare: "detailedHint ex_issue_bare = []" "badgeOf (renderIssue ex_issue_bare) = NoBadge"
    using ex_issue_bare_facts hint_block_nonempty [of ex_issue_bare] by simp_all
  show ?thesis
    using fio documented bare ex_issue_fio_facts ex_issue_documented_facts ex_issue_bare_facts
    by simp
qed

text \<open>
  Counterexample to C2 as stated: an issue about the font size, with no location, evidence,
  fix instruction or rule, has an empty hint block in the export and neither badge nor
  evidence block on the screen.
\<close>

theorem bare_issue_hint_counterexample:
  "message ex_issue_bare = Some ex_nevernyi_shrift \<and>
   location ex_issue_bare = None \<and> evidence ex_issue_bare = None \<and>
   how_to_fix ex_issue_bare = None \<and> rule ex_issue_bare = None \<and>
   detailedHint ex_issue_bare = [] \<and>
   badgeOf (renderIssue ex_issue_bare) = NoBadge \<and>
   evidenceHint (renderIssue ex_issue_bare) = None"
proof -
  have "detailedHint ex_issue_bare = []"
    using ex_issue_bare_facts by (simp add: detailedHint_def familyHint_def)
  moreover have "badgeOf (renderIssue ex_issue_bare) = NoBadge"
    using ex_issue_bare_facts by (simp add: renderIssue_def Let_def locationBadge_def)
  moreover have "evidenceHint (renderIssue ex_issue_bare) = None"
    using ex_issue_bare_facts by (simp add: renderIssue_def Let_def)
  ultimately show ?thesis by (simp add: ex_issue_bare_def)
qed

text \<open>
  C6 (as amended). At most one hint family is selected for an issue. On the screen the
  full-name family is taken when its keyword test holds, otherwise the order-number family
  when its test holds, otherwise the generic location when a location is present, otherwise
  none; the export knows the full-name family and the location only. Both keyword tests
  read the message as it is written, so the selection depends on its letter case.
\<close>

theorem hint_family_selection:
  "badgeFamily (badgeOf (renderIssue it)) =
     (if fioFamily it then Some NameFormat
      else if orderFamily it then Some OrderNumber
      else if truthy (location it) then Some GenericLocation
      else None) \<and>
   familyHint it =
     (if fioFamily it then fioDetailedHint (toLowerCase (the (message it)))
      else if truthy (location it) then locDetailedHint (the (location it))
      else []) \<and>
   (fioFamily it \<longleftrightarrow>
      truthy (message it) \<and>
      (\<exists>k\<in>set [kw_FIO, kw_fio, kw_Familiya, kw_student, kw_rukovoditel, kw_padezh,
                kw_sokrascheni]. js_includes (the (message it)) k)) \<and>
   (orderFamily it \<longleftrightarrow>
      truthy (message it) \<and>
      ((\<exists>k\<in>set [kw_nomer_prikaza, kw_prikaz, kw_rasporyazhenie].
          js_includes (the (message it)) k) \<or>
       (truthy (rule it) \<and> js_includes (the (rule it)) kw_OrderNumber)))"
proof -
  have screen: "badgeFamily (badgeOf (renderIssue it)) =
     (if fioFamily it then Some NameFormat
      else if orderFamily it then Some OrderNumber
      else if truthy (location it) then Some GenericLocation
      else None)"
    by (simp add: renderIssue_def Let_def badgeFamily_locationBadge)
  have name: "fioFamily it \<longleftrightarrow>
      truthy (message it) \<and>
      (\<exists>k\<in>set [kw_FIO, kw_fio, kw_Familiya, kw_student, kw_rukovoditel, kw_padezh,
                kw_sokrascheni]. js_includes (the (message it)) k)"
    by (cases "message it") (auto simp: fioFamily_def truthy_def)
  have order: "orderFamily it \<longleftrightarrow>
      truthy (message it) \<and>
      ((\<exists>k\<in>set [kw_nomer_prikaza, kw_prikaz, kw_rasporyazhenie].
          js_includes (the (message it)) k) \<or>
       (truthy (rule it) \<and> js_includes (the (rule it)) kw_OrderNumber))"
    by (cases "message it") (auto simp: orderFamily_def truthy_def)
  show ?thesis using screen name order by (simp add: familyHint_def)
qed

text \<open>
  Witness for C6, and the counterexample to C6 as stated: two issues that differ only in
  the letter case of the first letter of the message are put in different families.
\<close>

lemma lower_Familiya_neverno: "toLowerCase ex_Familiya_neverno = ex_familiya_neverno"
  by (simp add: lower_defs ex_Familiya_neverno_def ex_familiya_neverno_def)

lemma lower_familiya_neverno: "toLowerCase ex_familiya_neverno = ex_familiya_neverno"
  by (simp add: lower_defs ex_familiya_neverno_def)

lemma ex_issue_upper_lower_facts:
  "fioFamily ex_issue_upper" "\<not> fioFamily ex_issue_lower" "\<not> orderFamily ex_issue_lower"
  "truthy (location ex_issue_lower)"
  by (simp_all add: fioFamily_def orderFamily_def truthy_def ex_issue_upper_def
      ex_issue_lower_def ex_Familiya_neverno_def ex_familiya_neverno_def keyword_defs ascii_def)

theorem hint_family_selection_witness:
  "fioFamily ex_issue_upper \<and>
   badgeFamily (badgeOf (renderIssue ex_issue_upper)) = Some NameFormat \<and>
   \<not> fioFamily ex_issue_bare \<and> \<not> orderFamily ex_issue_bare \<and>
   \<not> truthy (location ex_issue_bare) \<and>
   badgeFamily (badgeOf (renderIssue ex_issue_bare)) = None"
  using ex_issue_upper_lower_facts ex_issue_bare_facts
    hint_family_selection [of ex_issue_upper] hint_family_selection [of ex_issue_bare]
  by simp

theorem letter_case_family_counterexample:
  "toLowerCase (the (message ex_issue_upper)) = toLowerCase (the (message ex_issue_lower)) \<and>
   rule ex_issue_upper = rule ex_issue_lower \<and>
   location ex_issue_upper = location ex_issue_lower \<and>
   badgeFamily (badgeOf (renderIssue ex_issue_upper)) = Some NameFormat \<and>
   badgeFamily (badgeOf (renderIssue ex_issue_lower)) = Some GenericLocation"
proof -
  have "toLowerCase (the (message ex_issue_upper)) = toLowerCase (the (message ex_issue_lower))"
    by (simp add: ex_issue_upper_def ex_issue_lower_def lower_Familiya_neverno
        lower_familiya_neverno)
  moreover have "badgeFamily (badgeOf (renderIssue ex_issue_upper)) = Some NameFormat"
    using ex_issue_upper_lower_facts
    by (simp add: renderIssue_def Let_def badgeFamily_locationBadge)
  moreover have "badgeFamily (badgeOf (renderIssue ex_issue_lower)) = Some GenericLocation"
    using ex_issue_upper_lower_facts
    by (simp add: renderIssue_def Let_def badgeFamily_locationBadge)
  ultimately show ?thesis by (simp add: ex_issue_upper_def ex_issue_lower_def)
qed

text \<open>
  C7 (as amended). A message that triggers several sub-rules of the full-name family gets
  the hint of exactly one of them, never a concatenation. In the export the sub-rule latest
  in the order student, supervisor, abbreviation, grammatical case wins, each assignment
  replacing the hint stored before it, and the fallback applies when none fired. On the
  screen \<open>getFIOHint\<close> returns at the first sub-rule that fires, in the same order, and
  otherwise a general hint. The four sub-rule hints of each path are pairwise different.
\<close>

theorem sub_hint_selection:
  "fioDetailedHint m =
     (if caseMarker m then exp_hint_case
      else if abbreviationMarker m then exp_hint_abbrev
      else if notFoundSupervisor m then exp_hint_supervisor
      else if notFoundStudent m then exp_hint_student
      else if nameMarker m then exp_hint_fallback
      else []) \<and>
   getFIOHint msg ev =
     (if notFoundStudent (toLowerCase msg) then fio_hint_student
      else if notFoundSupervisor (toLowerCase msg) then fio_hint_supervisor
      else if abbreviationMarker (toLowerCase msg) then fio_hint_abbrev
      else if caseMarker (toLowerCase msg) then fio_hint_case
      else if nameMarker (toLowerCase msg) then
        (if usableEvidence ev \<and> js_includes (the ev) str_dots
         then fio_hint_search_open @ take 60 (the ev) @ fio_hint_search_close
         else fio_hint_check_all)
      else fio_hint_generic) \<and>
   getFIOHint msg ev \<in>
     {fio_hint_student, fio_hint_supervisor, fio_hint_abbrev, fio_hint_case,
      fio_hint_search_open @ take 60 (the ev) @ fio_hint_search_close,
      fio_hint_check_all, fio_hint_generic} \<and>
   (notFoundStudent (toLowerCase msg) \<longrightarrow> getFIOHint msg ev = fio_hint_student) \<and>
   (\<not> notFoundStudent (toLowerCase msg) \<and> notFoundSupervisor (toLowerCase msg) \<longrightarrow>
      getFIOHint msg ev = fio_hint_supervisor) \<and>
   distinct [exp_hint_student, exp_hint_supervisor, exp_hint_abbrev, exp_hint_case] \<and>
   distinct [fio_hint_student, fio_hint_supervisor, fio_hint_abbrev, fio_hint_case]"
proof -
  have screen: "getFIOHint msg ev =
     (if notFoundStudent (toLowerCase msg) then fio_hint_student
      else if notFoundSupervisor (toLowerCase msg) then fio_hint_supervisor
      else if abbreviationMarker (toLowerCase msg) then fio_hint_abbrev
      else if caseMarker (toLowerCase msg) then fio_hint_case
      else if nameMarker (toLowerCase msg) then
        (if usableEvidence ev \<and> js_includes (the ev) str_dots
         then fio_hint_search_open @ take 60 (the ev) @ fio_hint_search_close
         else fio_hint_check_all)
      else fio_hint_generic)"
    by (simp add: getFIOHint_def Let_def)
  have export: "distinct [exp_hint_student, exp_hint_supervisor, exp_hint_abbrev, exp_hint_case]"
    by (simp add: exp_hint_student_def exp_hint_supervisor_def exp_hint_abbrev_def
        exp_hint_case_def exp_hint_abbrev_1_def exp_hint_case_1_def)
  have hints: "distinct [fio_hint_student, fio_hint_supervisor, fio_hint_abbrev, fio_hint_case]"
    by (simp add: fio_hint_student_def fio_hint_supervisor_def fio_hint_abbrev_def
        fio_hint_case_def)
  show ?thesis
    unfolding screen using export hints by (simp add: fioDetailedHint_priority)
qed

text \<open>
  Witness for C7, and the counterexample to C7 as stated: a message that triggers both the
  student sub-rule and the grammatical-case sub-rule gets the case block alone in the
  export and the student hint alone on the screen; a message that triggers the
  abbreviation and the grammatical-case sub-rule gets the case block in the export and the
  abbreviation hint on the screen.
\<close>

lemma lower_fio_student_padezh:
  "toLowerCase ex_fio_student_padezh =
     [0x444, 0x438, 0x43E, 0x20, 0x441, 0x442, 0x443, 0x434, 0x435, 0x43D, 0x442, 0x430,
      0x20, 0x43D, 0x435, 0x20, 0x43D, 0x430, 0x439, 0x434, 0x435, 0x43D, 0x43E, 0x2C,
      0x20, 0x43D, 0x435, 0x432, 0x435, 0x440, 0x43D, 0x44B, 0x439, 0x20, 0x43F, 0x430,
      0x434, 0x435, 0x436]"
  by (simp add: lower_defs ex_fio_student_padezh_def)

lemma ex_multi_markers:
  "notFoundStudent (toLowerCase ex_fio_student_padezh)"
  "caseMarker (toLowerCase ex_fio_student_padezh)"
  by (simp_all add: lower_fio_student_padezh notFoundStudent_def caseMarker_def keyword_defs)

lemma ex_issue_multi_facts:
  "fioFamily ex_issue_multi" "\<not> usableEvidence (evidence ex_issue_multi)"
  "\<not> truthy (how_to_fix ex_issue_multi)" "\<not> truthy (rule ex_issue_multi)"
  "the (message ex_issue_multi) = ex_fio_student_padezh"
  by (simp_all add: fioFamily_def truthy_def usableEvidence_def ex_issue_multi_def
      ex_fio_student_padezh_def keyword_defs)

lemma lower_sokrascheniya_padezh:
  "toLowerCase ex_sokrascheniya_padezh =
     [0x43D, 0x435, 0x434, 0x43E, 0x43F, 0x443, 0x441, 0x442, 0x438, 0x43C, 0x44B, 0x20,
     0x441, 0x43E, 0x43A, 0x440, 0x430, 0x449, 0x435, 0x43D, 0x438, 0x44F, 0x2C, 0x20,
     0x43D, 0x435, 0x432, 0x435, 0x440, 0x43D, 0x44B, 0x439, 0x20, 0x43F, 0x430, 0x434,
     0x435, 0x436]"
  by (simp add: lower_defs ex_sokrascheniya_padezh_def)

lemma ex_abbreviation_case_markers:
  "\<not> notFoundStudent (toLowerCase ex_sokrascheniya_padezh)"
  "\<not> notFoundSupervisor (toLowerCase ex_sokrascheniya_padezh)"
  "abbreviationMarker (toLowerCase ex_sokrascheniya_padezh)"
  "caseMarker (toLowerCase ex_sokrascheniya_padezh)"
  by (simp_all add: lower_sokrascheniya_padezh notFoundStudent_def notFoundSupervisor_def
      abbreviationMarker_def caseMarker_def keyword_defs)

theorem sub_hint_selection_witness:
  "notFoundStudent (toLowerCase ex_fio_student_padezh) \<and>
   caseMarker (toLowerCase ex_fio_student_padezh) \<and>
   fioDetailedHint (toLowerCase ex_fio_student_padezh) = exp_hint_case \<and>
   getFIOHint ex_fio_student_padezh None = fio_hint_student \<and>
   \<not> notFoundStudent (toLowerCase ex_sokrascheniya_padezh) \<and>
   \<not> notFoundSupervisor (toLowerCase ex_sokrascheniya_padezh) \<and>
   abbreviationMarker (toLowerCase ex_sokrascheniya_padezh) \<and>
   caseMarker (toLowerCase ex_sokrascheniya_padezh) \<and>
   fioDetailedHint (toLowerCase ex_sokrascheniya_padezh) = exp_hint_case \<and>
   getFIOHint ex_sokrascheniya_padezh None = fio_hint_abbrev"
proof -
  have first: "fioDetailedHint (toLowerCase ex_fio_student_padezh) = exp_hint_case"
    "getFIOHint ex_fio_student_padezh None = fio_hint_student"
    using ex_multi_markers
      sub_hint_selection [of "toLowerCase ex_fio_student_padezh" ex_fio_student_padezh None]
    by simp_all
  have second: "fioDetailedHint (toLowerCase ex_sokrascheniya_padezh) = exp_hint_case"
    "getFIOHint ex_sokrascheniya_padezh None = fio_hint_abbrev"
    using ex_abbreviation_case_markers
      sub_hint_selection [of "toLowerCase ex_sokrascheniya_padezh" ex_sokrascheniya_padezh None]
    by simp_all
  show ?thesis
    using first second ex_multi_markers ex_abbreviation_case_markers by simp
qed

lemma student_line_not_in_case_block: "\<not> js_includes exp_hint_case exp_hint_student"
proof
  assume "js_includes exp_hint_case exp_hint_student"
  moreover have "0x449 \<in> set exp_hint_student" by (simp add: exp_hint_student_def)
  ultimately have "0x449 \<in> set exp_hint_case" by (rule includes_unit_in_set)
  then show False
    by (simp add: exp_hint_case_def exp_hint_case_1_def exp_hint_case_2_def exp_hint_case_3_def)
qed


lemma case_hint_not_in_student_hint: "\<not> js_includes fio_hint_student fio_hint_case"
proof
  assume "js_includes fio_hint_student fio_hint_case"
  moreover have "0x2192 \<in> set fio_hint_case" by (simp add: fio_hint_case_def)
  ultimately have "0x2192 \<in> set fio_hint_student" by (rule includes_unit_in_set)
  then show False by (simp add: fio_hint_student_def)
qed

theorem multiple_sub_rules_counterexample:
  "notFoundStudent (toLowerCase (the (message ex_issue_multi))) \<and>
   caseMarker (toLowerCase (the (message ex_issue_multi))) \<and>
   detailedHint ex_issue_multi = exp_hint_case \<and>
   \<not> js_includes (detailedHint ex_issue_multi) exp_hint_student \<and>
   badgeOf (renderIssue ex_issue_multi) = FIOBadge fio_hint_student \<and>
   \<not> js_includes fio_hint_student fio_hint_case"
proof -
  have hint: "detailedHint ex_issue_multi = exp_hint_case"
    using ex_issue_multi_facts ex_multi_markers
    by (simp add: detailedHint_def familyHint_def fioDetailedHint_priority)
  have badge: "badgeOf (renderIssue ex_issue_multi) = FIOBadge fio_hint_student"
    using ex_issue_multi_facts ex_multi_markers
    by (simp add: renderIssue_def Let_def locationBadge_def getFIOHint_def)
  show ?thesis
    using hint badge ex_issue_multi_facts(5) ex_multi_markers student_line_not_in_case_block
      case_hint_not_in_student_hint
    by simp
qed

section \<open>Properties of the exporter\<close>







text \<open>
  Counterexample to C8 as stated: the exported document of that session contains the
  heading of the checklist but not the heading of the detailed list (the capital letter
  \<open>U+042B\<close> of that heading occurs nowhere in the document).
\<close>

lemma showNat_0: "showNat 0 = [0x30]"
  by simp





end
